theory Spec2Isabelle
  imports Complex_Main
begin

section \<open>PCB magazine generator: frame, bone, assembly and exporter\<close>

text \<open>
  The Python sources compute with floats; lengths are modelled here as \<^typ>\<open>real\<close>,
  so every statement below is about the exact arithmetic the code writes down.
  The slot count \<open>n\<close> is a Python \<open>int\<close> and is modelled as \<^typ>\<open>int\<close>;
  \<open>range(n)\<close> is the list \<open>[0..<nat n]\<close>, empty for \<open>n \<le> 0\<close>.
\<close>

type_synonym vec2 = "real \<times> real"
type_synonym vec3 = "real \<times> real \<times> real"

subsection \<open>models/frame\_model.py: construction constants\<close>

definition LEN_EXTRA :: real where "LEN_EXTRA = 5.0"
definition PLATE_T :: real where "PLATE_T = 8.0"
definition NOSE_DEPTH :: real where "NOSE_DEPTH = 3.0"
definition FRAME_WALL_X :: real where "FRAME_WALL_X = 10.0 - NOSE_DEPTH"
definition FRAME_WALL_Y :: real where "FRAME_WALL_Y = 10.0"
definition TOP_BOTTOM_MARGIN :: real where "TOP_BOTTOM_MARGIN = 2.0"
definition CONNECTOR_H :: real where "CONNECTOR_H = 5.0"
definition CONNECTOR_W :: real where "CONNECTOR_W = 6.0"
definition CONNECTOR_XOFF :: real where "CONNECTOR_XOFF = 8.0"
definition CHAMFER_X :: real where "CHAMFER_X = 4.0"
definition CHAMFER_Z :: real where "CHAMFER_Z = PLATE_T"
definition OUTER_CORNER_CH :: real where "OUTER_CORNER_CH = 2.0"
definition CONNECTOR_TOP_CH :: real where "CONNECTOR_TOP_CH = 0.5"

subsection \<open>models/frame\_model.py: derived dimensions\<close>

definition active_height :: "int \<Rightarrow> real \<Rightarrow> real \<Rightarrow> real" where
  "active_height n slot_w nose_w = of_int n * slot_w + of_int (n + 1) * nose_w"

text \<open>The four assignments at the head of \<open>make_frame\<close>.\<close>

definition inner_x :: "real \<Rightarrow> real" where
  "inner_x a_len = a_len + LEN_EXTRA"

definition inner_y :: "real \<Rightarrow> real \<Rightarrow> int \<Rightarrow> real" where
  "inner_y c_slot d_nose n = active_height n c_slot d_nose"

definition outer_x :: "real \<Rightarrow> real" where
  "outer_x a_len = inner_x a_len + 2 * FRAME_WALL_X"

definition outer_y :: "real \<Rightarrow> real \<Rightarrow> int \<Rightarrow> real" where
  "outer_y c_slot d_nose n = inner_y c_slot d_nose n + 2 * (FRAME_WALL_Y + TOP_BOTTOM_MARGIN)"

subsection \<open>models/bone\_model.py: parameters, clamp and profile\<close>

record bone_params =
  par_b :: real
  par_thickness :: real
  par_x_out :: real
  par_x_mid :: real
  par_x_in :: real
  par_l_dovetail :: real
  par_bone_w :: real
  par_edge_ch :: real

definition DEFAULTS :: bone_params where
  "DEFAULTS = \<lparr> par_b = 80.0, par_thickness = 5.0, par_x_out = 7.0, par_x_mid = 5.0,
     par_x_in = 3.0, par_l_dovetail = 8.0, par_bone_w = 10.0, par_edge_ch = 0.5 \<rparr>"

text \<open>
  The \<open>if\<close> of lines 49--50: the dovetail length actually used, given
  \<open>half_total = b / 2\<close> and the requested length.
\<close>

definition clamp_dovetail :: "real \<Rightarrow> real \<Rightarrow> real" where
  "clamp_dovetail half_total L =
     (if L \<le> 0 \<or> L \<ge> half_total then max 0.1 (min (half_total * 0.45) L) else L)"

definition Y_OUTER :: "bone_params \<Rightarrow> real" where
  "Y_OUTER p = par_b p / 2.0"

definition Y_INNER :: "bone_params \<Rightarrow> real" where
  "Y_INNER p = par_b p / 2.0 - clamp_dovetail (par_b p / 2.0) (par_l_dovetail p)"

text \<open>The list \<open>pts\<close> of \<open>make_bone\<close>: P1 .. P13 in source order.\<close>

definition bone_pts :: "bone_params \<Rightarrow> vec2 list" where
  "bone_pts p =
     (let X_OUT = par_x_out p; X_MID = par_x_mid p; X_IN = par_x_in p;
          yo = Y_OUTER p; yi = Y_INNER p
      in [( X_OUT,  yo), (- X_OUT,  yo), (- X_IN,  yi), (- X_MID,  yi),
          (- X_MID, - yi), (- X_IN, - yi), (- X_OUT, - yo), ( X_OUT, - yo),
          ( X_IN, - yi), ( X_MID, - yi), ( X_MID,  yi), ( X_IN,  yi),
          ( X_OUT,  yo)])"

definition mirror_x2 :: "vec2 \<Rightarrow> vec2" where
  "mirror_x2 q = (- fst q, snd q)"


subsection \<open>The solid-modelling kernel, as the builders call it\<close>

text \<open>
  The builders call into CadQuery. A solid is represented by the tree of kernel calls
  that builds it, one constructor per call pattern of the sources:
  \<^item> \<open>Box (cx, cy) (l, w, h)\<close>: \<open>Workplane("XY").center(cx, cy).box(l, w, h)\<close>, a box
    centred on \<open>(cx, cy, 0)\<close>;
  \<^item> \<open>CutBlind s (w, h) depth\<close>: \<open>s.faces(">Z").workplane().rect(w, h).cutBlind(depth)\<close>,
    a centred rectangular pocket from the top face, \<open>depth\<close> along the face normal;
  \<^item> \<open>PushRects cs (w, h) depth\<close>:
    \<open>Workplane("XY").pushPoints(cs).rect(w, h).extrude(depth, both=True)\<close>;
  \<^item> \<open>ExtrudeXY pts h\<close>: \<open>Workplane("XY").polyline(pts).close().extrude(h)\<close>;
  \<^item> \<open>ExtrudeXZ off (cx, cz) pts depth\<close>:
    \<open>Workplane("XZ").workplane(offset=off).center(cx, cz).polyline(pts).close().extrude(depth)\<close>;
    the normal of the kernel's XZ plane is \<open>-Y\<close> and its local axes are global X and Z,
    so the sketch plane lies at \<open>Y = -off\<close> and the extrusion runs towards \<open>-Y\<close>;
  \<^item> \<open>Union\<close>, \<open>Cut\<close>, \<open>Compound\<close> (\<open>Compound.makeCompound\<close>), \<open>Translate\<close>,
    \<open>MirrorXY\<close> (\<open>mirror(mirrorPlane="XY")\<close>), \<open>Rotate ax deg\<close>
    (\<open>rotate((0,0,0), axis, deg)\<close>) and \<open>Chamfer sel sz\<close> (\<open>.chamfer(size)\<close> on the
    edges picked by the selector chain \<open>sel\<close>).
\<close>

datatype face_sel = MaxZ | MinZ | MaxX | MinX

datatype edge_sel =
    FaceEdgeNearest face_sel vec3
  | NearestParallelY vec3
  | FaceEdgesParallelZ face_sel

datatype axis = AxX | AxY | AxZ

datatype solid =
    Box vec2 vec3
  | CutBlind solid vec2 real
  | PushRects "vec2 list" vec2 real
  | ExtrudeXY "vec2 list" real
  | ExtrudeXZ real vec2 "vec2 list" real
  | Union solid solid
  | Cut solid solid
  | Compound "solid list"
  | Translate vec3 solid
  | MirrorXY solid
  | Rotate axis real solid
  | Chamfer edge_sel real solid

record bbox =
  xmin :: real
  xmax :: real
  ymin :: real
  ymax :: real
  zmin :: real
  zmax :: real

definition xlen :: "bbox \<Rightarrow> real" where "xlen bb = xmax bb - xmin bb"
definition ylen :: "bbox \<Rightarrow> real" where "ylen bb = ymax bb - ymin bb"
definition zlen :: "bbox \<Rightarrow> real" where "zlen bb = zmax bb - zmin bb"

definition bb_hull :: "bbox \<Rightarrow> bbox \<Rightarrow> bbox" where
  "bb_hull p q = \<lparr> xmin = min (xmin p) (xmin q), xmax = max (xmax p) (xmax q),
                ymin = min (ymin p) (ymin q), ymax = max (ymax p) (ymax q),
                zmin = min (zmin p) (zmin q), zmax = max (zmax p) (zmax q) \<rparr>"

definition lo :: "real list \<Rightarrow> real" where
  "lo xs = (case xs of [] \<Rightarrow> 0 | x # r \<Rightarrow> fold min r x)"

definition hi :: "real list \<Rightarrow> real" where
  "hi xs = (case xs of [] \<Rightarrow> 0 | x # r \<Rightarrow> fold max r x)"

text \<open>Rotation of a point about a coordinate axis through the origin, by degrees.\<close>

definition rot :: "axis \<Rightarrow> real \<Rightarrow> vec3 \<Rightarrow> vec3" where
  "rot ax deg p =
     (let t = deg * pi / 180; (x, y, z) = p
      in case ax of
           AxX \<Rightarrow> (x, y * cos t - z * sin t, y * sin t + z * cos t)
         | AxY \<Rightarrow> (x * cos t + z * sin t, y, z * cos t - x * sin t)
         | AxZ \<Rightarrow> (x * cos t - y * sin t, x * sin t + y * cos t, z))"

definition corners_of :: "bbox \<Rightarrow> vec3 list" where
  "corners_of bb = [(x, y, z). x \<leftarrow> [xmin bb, xmax bb], y \<leftarrow> [ymin bb, ymax bb],
                               z \<leftarrow> [zmin bb, zmax bb]]"

definition box_of_points :: "vec3 list \<Rightarrow> bbox" where
  "box_of_points ps =
     \<lparr> xmin = lo (map fst ps), xmax = hi (map fst ps),
       ymin = lo (map (fst \<circ> snd) ps), ymax = hi (map (fst \<circ> snd) ps),
       zmin = lo (map (snd \<circ> snd) ps), zmax = hi (map (snd \<circ> snd) ps) \<rparr>"

text \<open>
  \<open>BoundingBox\<close>: the axis-aligned box the kernel reports for a solid. Cuts and
  chamfers only remove material and are given the box of their stock; a rotation is given
  the box of the rotated corners (exact for multiples of 90 degrees). The builders only
  query the box of the bottom frame; \<open>frame_box_tight\<close> below shows that for the frame
  this box is attained on all six sides by points of the solid.
\<close>

fun BoundingBox :: "solid \<Rightarrow> bbox" where
  "BoundingBox (Box (cx, cy) (l, w, h)) =
     \<lparr> xmin = cx - l / 2, xmax = cx + l / 2, ymin = cy - w / 2, ymax = cy + w / 2,
       zmin = - h / 2, zmax = h / 2 \<rparr>"
| "BoundingBox (CutBlind s r depth) = BoundingBox s"
| "BoundingBox (PushRects cs (w, h) depth) =
     \<lparr> xmin = lo (map (\<lambda>c. fst c - w / 2) cs), xmax = hi (map (\<lambda>c. fst c + w / 2) cs),
       ymin = lo (map (\<lambda>c. snd c - h / 2) cs), ymax = hi (map (\<lambda>c. snd c + h / 2) cs),
       zmin = - depth, zmax = depth \<rparr>"
| "BoundingBox (ExtrudeXY pts h) =
     \<lparr> xmin = lo (map fst pts), xmax = hi (map fst pts),
       ymin = lo (map snd pts), ymax = hi (map snd pts),
       zmin = min 0 h, zmax = max 0 h \<rparr>"
| "BoundingBox (ExtrudeXZ off (cx, cz) pts depth) =
     \<lparr> xmin = cx + lo (map fst pts), xmax = cx + hi (map fst pts),
       ymin = min (- off) (- off - depth), ymax = max (- off) (- off - depth),
       zmin = cz + lo (map snd pts), zmax = cz + hi (map snd pts) \<rparr>"
| "BoundingBox (Union s t) = bb_hull (BoundingBox s) (BoundingBox t)"
| "BoundingBox (Cut s t) = BoundingBox s"
| "BoundingBox (Compound ss) =
     (case map BoundingBox ss of
        [] \<Rightarrow> \<lparr> xmin = 0, xmax = 0, ymin = 0, ymax = 0, zmin = 0, zmax = 0 \<rparr>
      | bb # bbs \<Rightarrow> fold bb_hull bbs bb)"
| "BoundingBox (Translate (dx, dy, dz) s) =
     (let bb = BoundingBox s
      in \<lparr> xmin = xmin bb + dx, xmax = xmax bb + dx, ymin = ymin bb + dy,
            ymax = ymax bb + dy, zmin = zmin bb + dz, zmax = zmax bb + dz \<rparr>)"
| "BoundingBox (MirrorXY s) =
     (let bb = BoundingBox s in bb \<lparr> zmin := - zmax bb, zmax := - zmin bb \<rparr>)"
| "BoundingBox (Rotate ax deg s) =
     box_of_points (map (rot ax deg) (corners_of (BoundingBox s)))"
| "BoundingBox (Chamfer sel sz s) = BoundingBox s"

subsection \<open>Point sets of solids\<close>

text \<open>
  The region enclosed by a closed polyline: for three points the closed triangle, otherwise
  the even-odd rule (a ray towards \<open>+x\<close>) together with the boundary segments.
\<close>

definition cross2 :: "vec2 \<Rightarrow> vec2 \<Rightarrow> vec2 \<Rightarrow> real" where
  "cross2 p q r = (fst q - fst p) * (snd r - snd p) - (snd q - snd p) * (fst r - fst p)"

definition in_triangle :: "vec2 \<Rightarrow> vec2 \<Rightarrow> vec2 \<Rightarrow> vec2 \<Rightarrow> bool" where
  "in_triangle p1 p2 p3 q =
     (let d1 = cross2 p1 p2 q; d2 = cross2 p2 p3 q; d3 = cross2 p3 p1 q
      in \<not> ((d1 < 0 \<or> d2 < 0 \<or> d3 < 0) \<and> (d1 > 0 \<or> d2 > 0 \<or> d3 > 0))
         \<and> lo [fst p1, fst p2, fst p3] \<le> fst q \<and> fst q \<le> hi [fst p1, fst p2, fst p3]
         \<and> lo [snd p1, snd p2, snd p3] \<le> snd q \<and> snd q \<le> hi [snd p1, snd p2, snd p3])"

fun edges_from :: "vec2 \<Rightarrow> vec2 list \<Rightarrow> (vec2 \<times> vec2) list" where
  "edges_from p0 [] = []"
| "edges_from p0 [p] = [(p, p0)]"
| "edges_from p0 (p # q # ps) = (p, q) # edges_from p0 (q # ps)"

definition edges :: "vec2 list \<Rightarrow> (vec2 \<times> vec2) list" where
  "edges ps = (case ps of [] \<Rightarrow> [] | p # _ \<Rightarrow> edges_from p ps)"

definition on_segment :: "vec2 \<times> vec2 \<Rightarrow> vec2 \<Rightarrow> bool" where
  "on_segment e q =
     (cross2 (fst e) (snd e) q = 0
      \<and> min (fst (fst e)) (fst (snd e)) \<le> fst q \<and> fst q \<le> max (fst (fst e)) (fst (snd e))
      \<and> min (snd (fst e)) (snd (snd e)) \<le> snd q \<and> snd q \<le> max (snd (fst e)) (snd (snd e)))"

definition crosses_ray :: "vec2 \<times> vec2 \<Rightarrow> vec2 \<Rightarrow> bool" where
  "crosses_ray e q =
     ((snd (fst e) \<le> snd q) \<noteq> (snd (snd e) \<le> snd q)
      \<and> fst q < fst (fst e)
           + (snd q - snd (fst e)) * (fst (snd e) - fst (fst e)) / (snd (snd e) - snd (fst e)))"

fun in_polygon :: "vec2 list \<Rightarrow> vec2 \<Rightarrow> bool" where
  "in_polygon [p1, p2, p3] q = in_triangle p1 p2 p3 q"
| "in_polygon ps q =
     (list_ex (\<lambda>e. on_segment e q) (edges ps)
      \<or> odd (length (filter (\<lambda>e. crosses_ray e q) (edges ps))))"

text \<open>
  \<open>inside s p\<close>: the point \<open>p\<close> belongs to the solid \<open>s\<close>. A cut removes the points of
  the cutter. A chamfer is a finishing operation of the kernel on the edges its selector
  picks; it is kept in the tree (see \<open>chamfers\<close>) and \<open>inside\<close> describes the stock it
  is applied to.
\<close>

fun inside :: "solid \<Rightarrow> vec3 \<Rightarrow> bool" where
  "inside (Box (cx, cy) (l, w, h)) (x, y, z) =
     (\<bar>x - cx\<bar> \<le> l / 2 \<and> \<bar>y - cy\<bar> \<le> w / 2 \<and> \<bar>z\<bar> \<le> h / 2)"
| "inside (CutBlind s (w, h) depth) (x, y, z) =
     (inside s (x, y, z)
      \<and> \<not> (\<bar>x\<bar> \<le> w / 2 \<and> \<bar>y\<bar> \<le> h / 2
           \<and> min (zmax (BoundingBox s)) (zmax (BoundingBox s) + depth) \<le> z
           \<and> z \<le> max (zmax (BoundingBox s)) (zmax (BoundingBox s) + depth)))"
| "inside (PushRects cs (w, h) depth) (x, y, z) =
     (list_ex (\<lambda>c. \<bar>x - fst c\<bar> \<le> w / 2 \<and> \<bar>y - snd c\<bar> \<le> h / 2) cs \<and> \<bar>z\<bar> \<le> depth)"
| "inside (ExtrudeXY pts h) (x, y, z) =
     (in_polygon pts (x, y) \<and> min 0 h \<le> z \<and> z \<le> max 0 h)"
| "inside (ExtrudeXZ off (cx, cz) pts depth) (x, y, z) =
     (in_polygon pts (x - cx, z - cz)
      \<and> min (- off) (- off - depth) \<le> y \<and> y \<le> max (- off) (- off - depth))"
| "inside (Union s t) p = (inside s p \<or> inside t p)"
| "inside (Cut s t) p = (inside s p \<and> \<not> inside t p)"
| "inside (Compound ss) p = list_ex (\<lambda>s. inside s p) ss"
| "inside (Translate (dx, dy, dz) s) (x, y, z) = inside s (x - dx, y - dy, z - dz)"
| "inside (MirrorXY s) (x, y, z) = inside s (x, y, - z)"
| "inside (Rotate ax deg s) p = inside s (rot ax (- deg) p)"
| "inside (Chamfer sel sz s) p = inside s p"

text \<open>The chamfer operations of a solid, in the order they were applied.\<close>

fun chamfers :: "solid \<Rightarrow> (edge_sel \<times> real) list" where
  "chamfers (Chamfer sel sz s) = chamfers s @ [(sel, sz)]"
| "chamfers (Translate v s) = chamfers s"
| "chamfers (MirrorXY s) = chamfers s"
| "chamfers (Rotate ax deg s) = chamfers s"
| "chamfers s = []"


subsection \<open>models/frame\_model.py: make\_frame\<close>

text \<open>Lines 109--122: the slot loop. \<open>i\<close> runs over \<open>range(n)\<close>.\<close>

definition y_center :: "real \<Rightarrow> real \<Rightarrow> int \<Rightarrow> nat \<Rightarrow> real" where
  "y_center c_slot d_nose n i =
     (let y0 = - inner_y c_slot d_nose n / 2 + d_nose
      in y0 + (of_nat i + 0.5) * c_slot + of_nat i * d_nose)"

definition cut_left :: "real \<Rightarrow> real \<Rightarrow> real \<Rightarrow> int \<Rightarrow> nat \<Rightarrow> solid" where
  "cut_left a_len c_slot d_nose n i =
     Box (- inner_x a_len / 2 + NOSE_DEPTH / 2, y_center c_slot d_nose n i)
         (NOSE_DEPTH, c_slot, PLATE_T + 0.2)"

definition cut_right :: "real \<Rightarrow> real \<Rightarrow> real \<Rightarrow> int \<Rightarrow> nat \<Rightarrow> solid" where
  "cut_right a_len c_slot d_nose n i =
     Box (inner_x a_len / 2 - NOSE_DEPTH / 2, y_center c_slot d_nose n i)
         (NOSE_DEPTH, c_slot, PLATE_T + 0.2)"

definition rails0 :: "real \<Rightarrow> real \<Rightarrow> real \<Rightarrow> int \<Rightarrow> solid" where
  "rails0 a_len c_slot d_nose n =
     (let left_rail = Box (- inner_x a_len / 2 + NOSE_DEPTH / 2, 0)
                          (NOSE_DEPTH, inner_y c_slot d_nose n, PLATE_T);
          right_rail = Box (inner_x a_len / 2 - NOSE_DEPTH / 2, 0)
                           (NOSE_DEPTH, inner_y c_slot d_nose n, PLATE_T)
      in Union left_rail right_rail)"

definition slotted_rails :: "real \<Rightarrow> real \<Rightarrow> real \<Rightarrow> int \<Rightarrow> solid" where
  "slotted_rails a_len c_slot d_nose n =
     foldl (\<lambda>rails i. Cut (Cut rails (cut_left a_len c_slot d_nose n i))
                           (cut_right a_len c_slot d_nose n i))
           (rails0 a_len c_slot d_nose n) [0..<nat n]"

text \<open>Lines 128--132: the connector centres.\<close>

definition centers :: "real \<Rightarrow> real \<Rightarrow> real \<Rightarrow> int \<Rightarrow> vec2 list" where
  "centers a_len c_slot d_nose n =
     (let x_left = - outer_x a_len / 2 + CONNECTOR_XOFF + CONNECTOR_W / 2;
          x_right = outer_x a_len / 2 - CONNECTOR_XOFF - CONNECTOR_W / 2;
          y_top = outer_y c_slot d_nose n / 2 - CONNECTOR_H / 2;
          y_bot = - outer_y c_slot d_nose n / 2 + CONNECTOR_H / 2
      in [(x_left, y_top), (x_right, y_top), (x_left, y_bot), (x_right, y_bot)])"

definition make_wedge_at_edge :: "real \<Rightarrow> real \<Rightarrow> int \<Rightarrow> solid" where
  "make_wedge_at_edge x_edge yc x_dir =
     (let y_bottom = yc - CONNECTOR_H / 2
      in ExtrudeXZ y_bottom (x_edge, - PLATE_T / 2)
           [(0, 0), (of_int x_dir * CHAMFER_X, 0), (0, CHAMFER_Z)] CONNECTOR_H)"

text \<open>
  Lines 156--161: the wedge loop. \<open>wedges\<close> starts as \<open>None\<close> and is a solid after the
  first centre.
\<close>

definition add_wedges :: "solid option \<Rightarrow> vec2 \<Rightarrow> solid option" where
  "add_wedges wedges ctr =
     (let wl = make_wedge_at_edge (fst ctr - CONNECTOR_W / 2) (snd ctr) (- 1);
          wr = make_wedge_at_edge (fst ctr + CONNECTOR_W / 2) (snd ctr) 1;
          w1 = (case wedges of None \<Rightarrow> wl | Some ws \<Rightarrow> Union ws wl)
      in Some (Union w1 wr))"

text \<open>Lines 167--178 and 181--183: the cosmetic chamfers.\<close>

definition connector_chamfers :: "vec2 list \<Rightarrow> solid \<Rightarrow> solid" where
  "connector_chamfers cs frame =
     (if CONNECTOR_TOP_CH > 0
      then foldl (\<lambda>f ctr.
             Chamfer (NearestParallelY (fst ctr + CONNECTOR_W / 2, snd ctr, PLATE_T / 2))
                     CONNECTOR_TOP_CH
               (Chamfer (NearestParallelY (fst ctr - CONNECTOR_W / 2, snd ctr, PLATE_T / 2))
                        CONNECTOR_TOP_CH f))
             frame cs
      else frame)"

definition corner_chamfers :: "solid \<Rightarrow> solid" where
  "corner_chamfers frame =
     (if OUTER_CORNER_CH > 0
      then Chamfer (FaceEdgesParallelZ MinX) OUTER_CORNER_CH
             (Chamfer (FaceEdgesParallelZ MaxX) OUTER_CORNER_CH frame)
      else frame)"

text \<open>Lines 91--92: the plate with the window cut through it.\<close>

definition window_plate :: "real \<Rightarrow> real \<Rightarrow> real \<Rightarrow> int \<Rightarrow> solid" where
  "window_plate a_len c_slot d_nose n =
     CutBlind (Box (0, 0) (outer_x a_len, outer_y c_slot d_nose n, PLATE_T))
              (inner_x a_len, inner_y c_slot d_nose n) (- PLATE_T)"

text \<open>Lines 134--139: the batched connector cutter.\<close>

definition connector_cutter :: "real \<Rightarrow> real \<Rightarrow> real \<Rightarrow> int \<Rightarrow> solid" where
  "connector_cutter a_len c_slot d_nose n =
     PushRects (centers a_len c_slot d_nose n) (CONNECTOR_W, CONNECTOR_H) (PLATE_T + 1.0)"

definition wedges :: "real \<Rightarrow> real \<Rightarrow> real \<Rightarrow> int \<Rightarrow> solid option" where
  "wedges a_len c_slot d_nose n = foldl add_wedges None (centers a_len c_slot d_nose n)"

text \<open>
  The frame before the cosmetic chamfers (lines 91--163): the rails are merged into the
  plate, then the connector cutter and the wedges are cut away.
\<close>

definition frame_body :: "real \<Rightarrow> real \<Rightarrow> real \<Rightarrow> int \<Rightarrow> solid" where
  "frame_body a_len c_slot d_nose n =
     (let frame2 = Union (window_plate a_len c_slot d_nose n)
                         (slotted_rails a_len c_slot d_nose n);
          frame3 = Cut frame2 (connector_cutter a_len c_slot d_nose n)
      in case wedges a_len c_slot d_nose n of
           None \<Rightarrow> frame3
         | Some ws \<Rightarrow> Cut frame3 ws)"

definition make_frame :: "real \<Rightarrow> real \<Rightarrow> real \<Rightarrow> int \<Rightarrow> solid" where
  "make_frame a_len c_slot d_nose n =
     corner_chamfers
       (connector_chamfers (centers a_len c_slot d_nose n)
          (frame_body a_len c_slot d_nose n))"

subsection \<open>models/bone\_model.py: make\_bone\<close>

definition shoulder_midpoints :: "bone_params \<Rightarrow> vec2 list" where
  "shoulder_midpoints p =
     (let X_OUT = par_x_out p; X_IN = par_x_in p; yo = Y_OUTER p; yi = Y_INNER p;
          m23 = ((- X_OUT + - X_IN) / 2.0, (yo + yi) / 2.0);
          m67 = ((- X_IN + - X_OUT) / 2.0, (- yi + - yo) / 2.0);
          m89 = ((X_OUT + X_IN) / 2.0, (- yo + - yi) / 2.0);
          m1213 = ((X_IN + X_OUT) / 2.0, (yi + yo) / 2.0)
      in [m23, m67, m89, m1213])"

definition make_bone :: "bone_params \<Rightarrow> solid" where
  "make_bone p =
     (let THICKNESS = par_thickness p; EDGE_CH = par_edge_ch p;
          solid0 = ExtrudeXY (bone_pts p) THICKNESS;
          ms = shoulder_midpoints p
      in if EDGE_CH > 0
         then foldl (\<lambda>s m. Chamfer (FaceEdgeNearest MinZ (fst m, snd m, - THICKNESS / 2))
                                     EDGE_CH s)
                (foldl (\<lambda>s m. Chamfer (FaceEdgeNearest MaxZ (fst m, snd m, THICKNESS / 2))
                                        EDGE_CH s) solid0 ms) ms
         else solid0)"

subsection \<open>models/assembly.py: make\_assembly\<close>

definition BONE_X_INSET :: real where "BONE_X_INSET = 11.0"

text \<open>A placement: the solid, the translation and the rotation triple.\<close>

type_synonym placement = "solid \<times> vec3 \<times> vec3"

definition bone_translation :: "real \<Rightarrow> real \<Rightarrow> vec2 \<Rightarrow> vec3" where
  "bone_translation bone_thickness zc cnr =
     (let x = fst cnr; y = snd cnr;
          x_in = (if x > 0 then x - BONE_X_INSET else x + BONE_X_INSET);
          y_in = (if y < 0 then y + bone_thickness else y)
      in (x_in, y_in, zc))"

definition frame_bottom :: "real \<Rightarrow> real \<Rightarrow> real \<Rightarrow> int \<Rightarrow> solid" where
  "frame_bottom a c d n = Translate (0, 0, PLATE_T / 2) (make_frame a c d n)"

definition frame_top :: "real \<Rightarrow> real \<Rightarrow> real \<Rightarrow> int \<Rightarrow> real \<Rightarrow> solid" where
  "frame_top a c d n b = Translate (0, 0, b - PLATE_T / 2) (MirrorXY (make_frame a c d n))"

definition bone_raw :: "real \<Rightarrow> solid" where
  "bone_raw b = Rotate AxX 90 (make_bone (DEFAULTS \<lparr> par_b := b \<rparr>))"

definition corners :: "real \<Rightarrow> real \<Rightarrow> real \<Rightarrow> int \<Rightarrow> vec2 list" where
  "corners a c d n =
     (let f_bb = BoundingBox (Compound [frame_bottom a c d n]);
          ox = xlen f_bb; oy = ylen f_bb
      in [(ox / 2.0, oy / 2.0), (- ox / 2.0, oy / 2.0),
          (- ox / 2.0, - oy / 2.0), (ox / 2.0, - oy / 2.0)])"

definition make_assembly :: "real \<Rightarrow> real \<Rightarrow> real \<Rightarrow> int \<Rightarrow> real \<Rightarrow> placement list" where
  "make_assembly a c d n b =
     (let frame1 = frame_bottom a c d n;
          frame2 = frame_top a c d n b;
          zc = b / 2.0;
          bone_thickness = par_thickness DEFAULTS
      in [(frame1, (0.0, 0.0, 0.0), (0, 0, 0)), (frame2, (0.0, 0.0, 0.0), (0, 0, 0))]
         @ map (\<lambda>cnr. (bone_raw b, bone_translation bone_thickness zc cnr, (0, 0, 0)))
               (corners a c d n))"

subsection \<open>app.py: realising the placements\<close>

text \<open>
  Lines 89--100 of \<open>main\<close>: each placement is rotated about Z, Y and X where the angle is
  non-zero, then translated, and the moved solids are put into one compound.
\<close>

definition move :: "placement \<Rightarrow> solid" where
  "move pl =
     (case pl of (shp, t, (rz, ry, rx)) \<Rightarrow>
        (let wp1 = (if rz \<noteq> 0 then Rotate AxZ rz shp else shp);
             wp2 = (if ry \<noteq> 0 then Rotate AxY ry wp1 else wp1);
             wp3 = (if rx \<noteq> 0 then Rotate AxX rx wp2 else wp2)
         in Translate t wp3))"

definition compose :: "placement list \<Rightarrow> solid" where
  "compose model = Compound (map move model)"

subsection \<open>Mirrors\<close>

definition mirror_sel_x :: "edge_sel \<Rightarrow> edge_sel" where
  "mirror_sel_x sel =
     (case sel of
        FaceEdgeNearest f (x, y, z) \<Rightarrow>
          FaceEdgeNearest (case f of MaxX \<Rightarrow> MinX | MinX \<Rightarrow> MaxX | g \<Rightarrow> g) (- x, y, z)
      | NearestParallelY (x, y, z) \<Rightarrow> NearestParallelY (- x, y, z)
      | FaceEdgesParallelZ f \<Rightarrow>
          FaceEdgesParallelZ (case f of MaxX \<Rightarrow> MinX | MinX \<Rightarrow> MaxX | g \<Rightarrow> g))"

definition mirror_sel_y :: "edge_sel \<Rightarrow> edge_sel" where
  "mirror_sel_y sel =
     (case sel of
        FaceEdgeNearest f (x, y, z) \<Rightarrow> FaceEdgeNearest f (x, - y, z)
      | NearestParallelY (x, y, z) \<Rightarrow> NearestParallelY (x, - y, z)
      | FaceEdgesParallelZ f \<Rightarrow> FaceEdgesParallelZ f)"

subsection \<open>exporter/exporter.py: export\_shape\<close>

text \<open>
  The exporter works on the file system. The model keeps what the function touches: the
  working directory, the set of existing directories and the exported files, all keyed by
  absolute component lists. \<open>Path\<close>, \<open>parent\<close> and \<open>resolve\<close> follow \<open>pathlib\<close> on
  POSIX paths (components split at \<open>/\<close>, empty and \<open>.\<close> components dropped, \<open>..\<close>
  removed by \<open>resolve\<close>); \<open>mkdir_parents\<close> is \<open>mkdir(parents=True, exist_ok=True)\<close>,
  which creates the directory named by every prefix of the path (for \<open>a/b/../c\<close> the
  directories \<open>a\<close>, \<open>a/b\<close> and \<open>a/c\<close>), and
  \<open>export\<close> is \<open>cq.exporters.export\<close>. Failures of the operating system (permissions,
  a file in the place of a directory) are outside the model. \<open>str.lower\<close> is modelled on
  the ASCII letters, which decide the comparison with \<open>stl\<close>, \<open>step\<close> and \<open>stp\<close>.
\<close>

datatype export_type = STL | STEP

datatype error = ValueError string

definition lower_char :: "char \<Rightarrow> char" where
  "lower_char ch =
     (case map_of (zip ''ABCDEFGHIJKLMNOPQRSTUVWXYZ'' ''abcdefghijklmnopqrstuvwxyz'') ch of
        Some l \<Rightarrow> l
      | None \<Rightarrow> ch)"

definition lower :: "string \<Rightarrow> string" where
  "lower s = map lower_char s"

type_synonym path = "bool \<times> string list"

fun split_slash :: "string \<Rightarrow> string \<Rightarrow> string list" where
  "split_slash acc [] = [acc]"
| "split_slash acc (ch # s) =
     (if ch = CHR ''/'' then acc # split_slash [] s else split_slash (acc @ [ch]) s)"

definition Path :: "string \<Rightarrow> path" where
  "Path s = (s \<noteq> [] \<and> hd s = CHR ''/'',
             filter (\<lambda>p. p \<noteq> [] \<and> p \<noteq> ''.'') (split_slash [] s))"

definition parent :: "path \<Rightarrow> path" where
  "parent p = (fst p, butlast (snd p))"

fun norm_parts :: "string list \<Rightarrow> string list \<Rightarrow> string list" where
  "norm_parts st [] = rev st"
| "norm_parts st (p # ps) =
     (if p = ''..'' then norm_parts (tl st) ps else norm_parts (p # st) ps)"

definition resolve :: "string list \<Rightarrow> path \<Rightarrow> string list" where
  "resolve wd p = norm_parts [] ((if fst p then [] else wd) @ snd p)"

definition str_abs :: "string list \<Rightarrow> string" where
  "str_abs ps = (if ps = [] then ''/'' else concat (map (\<lambda>p. CHR ''/'' # p) ps))"

record 'a filesystem =
  cwd :: "string list"
  dirs :: "string list set"
  files :: "string list \<rightharpoonup> export_type \<times> 'a"

fun ancestors :: "string list \<Rightarrow> string list list" where
  "ancestors [] = [[]]"
| "ancestors (p # ps) = [] # map ((#) p) (ancestors ps)"

definition mkdir_parents :: "path \<Rightarrow> 'a filesystem \<Rightarrow> 'a filesystem" where
  "mkdir_parents p fs =
     (let full = (if fst p then [] else cwd fs) @ snd p
      in fs \<lparr> dirs := dirs fs \<union> set (map (norm_parts []) (ancestors full)) \<rparr>)"

definition export :: "'a \<Rightarrow> path \<Rightarrow> export_type \<Rightarrow> 'a filesystem \<Rightarrow> 'a filesystem" where
  "export shape p ty fs = fs \<lparr> files := (files fs)(resolve (cwd fs) p \<mapsto> (ty, shape)) \<rparr>"

definition export_shape ::
  "'a \<Rightarrow> string \<Rightarrow> string \<Rightarrow> 'a filesystem \<Rightarrow> 'a filesystem \<times> (error + string)" where
  "export_shape shape out_path fmt0 fs =
     (let fmt = lower fmt0;
          out = Path out_path;
          fs1 = mkdir_parents (parent out) fs
      in if fmt = ''stl'' then
           (export shape out STL fs1, Inr (str_abs (resolve (cwd fs1) out)))
         else if fmt \<in> set [''step'', ''stp''] then
           (export shape out STEP fs1, Inr (str_abs (resolve (cwd fs1) out)))
         else (fs1, Inl (ValueError (''Unsupported format: '' @ fmt))))"

text \<open>app.py, line 64: the \<open>choices\<close> of the \<open>--fmt\<close> option.\<close>

definition fmt_choices :: "string list" where
  "fmt_choices = [''stl'', ''step'']"

text \<open>A small file system for concrete runs.\<close>

definition fs0 :: "'a filesystem" where
  "fs0 = \<lparr> cwd = [''home''], dirs = {[], [''home'']}, files = Map.empty \<rparr>"


section \<open>Auxiliary facts\<close>

lemmas frame_consts =
  LEN_EXTRA_def PLATE_T_def NOSE_DEPTH_def FRAME_WALL_X_def FRAME_WALL_Y_def
  TOP_BOTTOM_MARGIN_def CONNECTOR_H_def CONNECTOR_W_def CONNECTOR_XOFF_def
  CHAMFER_X_def CHAMFER_Z_def OUTER_CORNER_CH_def CONNECTOR_TOP_CH_def


lemma BoundingBox_foldl_cut:
  "BoundingBox (foldl (\<lambda>rails i. Cut (Cut rails (f i)) (g i)) r0 xs) = BoundingBox r0"
  by (induction xs arbitrary: r0) auto

lemma BoundingBox_slotted_rails:
  "BoundingBox (slotted_rails a c d n) = BoundingBox (rails0 a c d n)"
  by (simp add: slotted_rails_def BoundingBox_foldl_cut)

lemma inner_y_pos: "1 \<le> n \<Longrightarrow> 0 < c \<Longrightarrow> 0 < d \<Longrightarrow> 0 < inner_y c d n"
  by (simp add: inner_y_def active_height_def add_pos_pos)

lemma BoundingBox_frame_body:
  assumes "0 < a" "0 < c" "0 < d" "1 \<le> n"
  shows "BoundingBox (frame_body a c d n) =
     \<lparr> xmin = - outer_x a / 2, xmax = outer_x a / 2,
       ymin = - outer_y c d n / 2, ymax = outer_y c d n / 2,
       zmin = - PLATE_T / 2, zmax = PLATE_T / 2 \<rparr>"
proof -
  have iy: "0 < inner_y c d n" using assms by (simp add: inner_y_pos)
  have "BoundingBox (frame_body a c d n) =
          bb_hull (BoundingBox (Box (0, 0) (outer_x a, outer_y c d n, PLATE_T)))
                  (BoundingBox (rails0 a c d n))"
    by (simp add: frame_body_def Let_def wedges_def centers_def add_wedges_def window_plate_def
        BoundingBox_slotted_rails)
  also have "\<dots> = \<lparr> xmin = - outer_x a / 2, xmax = outer_x a / 2,
       ymin = - outer_y c d n / 2, ymax = outer_y c d n / 2,
       zmin = - PLATE_T / 2, zmax = PLATE_T / 2 \<rparr>"
    using assms(1) iy
    by (auto simp: rails0_def Let_def bb_hull_def outer_x_def outer_y_def inner_x_def
        frame_consts min_def max_def field_simps)
  finally show ?thesis .
qed

lemma BoundingBox_connector_chamfers:
  "BoundingBox (connector_chamfers cs f) = BoundingBox f"
proof -
  have "BoundingBox (foldl (\<lambda>f ctr. Chamfer (s2 ctr) z (Chamfer (s1 ctr) z f)) f cs)
          = BoundingBox f"
    for s1 s2 :: "vec2 \<Rightarrow> edge_sel" and z
    by (induction cs arbitrary: f) auto
  then show ?thesis by (simp add: connector_chamfers_def)
qed

lemma BoundingBox_make_frame:
  "BoundingBox (make_frame a c d n) = BoundingBox (frame_body a c d n)"
  by (simp add: make_frame_def corner_chamfers_def BoundingBox_connector_chamfers)

lemma corners_valid:
  assumes "0 < a" "0 < c" "0 < d" "1 \<le> n"
  shows "corners a c d n =
     [(outer_x a / 2, outer_y c d n / 2), (- outer_x a / 2, outer_y c d n / 2),
      (- outer_x a / 2, - outer_y c d n / 2), (outer_x a / 2, - outer_y c d n / 2)]"
  using assms
  by (simp add: corners_def frame_bottom_def BoundingBox_make_frame BoundingBox_frame_body
      xlen_def ylen_def Let_def)

lemma ancestors_iff: "p \<in> set (ancestors ys) \<longleftrightarrow> (\<exists>r. ys = p @ r)"
proof (induction ys arbitrary: p)
  case Nil
  then show ?case by simp
next
  case (Cons y ys)
  show ?case
  proof (cases p)
    case Nil
    then show ?thesis by simp
  next
    case (Cons q qs)
    then show ?thesis using Cons.IH [of qs] by auto
  qed
qed

lemma ancestors_norm_parts:
  "p \<in> set (ancestors (norm_parts st xs)) \<Longrightarrow>
     p \<in> set (ancestors (rev st)) \<or> p \<in> norm_parts st ` set (ancestors xs)"
proof (induction xs arbitrary: st)
  case Nil
  then show ?case by simp
next
  case (Cons x xs)
  show ?case
  proof (cases "x = ''..''")
    case True
    then have "p \<in> set (ancestors (norm_parts (tl st) xs))"
      using Cons.prems by simp
    then consider "p \<in> set (ancestors (rev (tl st)))"
      | q where "q \<in> set (ancestors xs)" "p = norm_parts (tl st) q"
      using Cons.IH [of "tl st"] by blast
    then show ?thesis
    proof cases
      case 1
      then obtain r where "rev (tl st) = p @ r" by (auto simp: ancestors_iff)
      moreover have "\<exists>u. rev st = rev (tl st) @ u" by (cases st) auto
      ultimately have "\<exists>r. rev st = p @ r" by auto
      then show ?thesis by (simp add: ancestors_iff)
    next
      case 2
      then have "x # q \<in> set (ancestors (x # xs))" "norm_parts st (x # q) = p"
        using True by auto
      then show ?thesis by blast
    qed
  next
    case False
    then have "p \<in> set (ancestors (norm_parts (x # st) xs))"
      using Cons.prems by simp
    then consider "p \<in> set (ancestors (rev (x # st)))"
      | q where "q \<in> set (ancestors xs)" "p = norm_parts (x # st) q"
      using Cons.IH [of "x # st"] by blast
    then show ?thesis
    proof cases
      case 1
      then obtain r where r: "rev st @ [x] = p @ r" by (auto simp: ancestors_iff)
      show ?thesis
      proof (cases r rule: rev_cases)
        case Nil
        then have "p = norm_parts st [x]" using r False by simp
        moreover have "[x] \<in> set (ancestors (x # xs))" by (simp add: ancestors_iff)
        ultimately show ?thesis by blast
      next
        case (snoc r' z)
        then have "rev st = p @ r'" using r by simp
        then show ?thesis by (auto simp: ancestors_iff)
      qed
    next
      case 2
      then have "x # q \<in> set (ancestors (x # xs))" "norm_parts st (x # q) = p"
        using False by auto
      then show ?thesis by blast
    qed
  qed
qed

lemma ancestors_resolved_subset:
  "set (ancestors (norm_parts [] xs)) \<subseteq> norm_parts [] ` set (ancestors xs)"
proof
  fix p assume "p \<in> set (ancestors (norm_parts [] xs))"
  then have "p \<in> set (ancestors (rev [])) \<or> p \<in> norm_parts [] ` set (ancestors xs)"
    by (rule ancestors_norm_parts)
  moreover have "[] \<in> set (ancestors xs)" by (simp add: ancestors_iff)
  ultimately show "p \<in> norm_parts [] ` set (ancestors xs)" by force
qed

lemma cwd_mkdir: "cwd (mkdir_parents p fs) = cwd fs"
  by (simp add: mkdir_parents_def Let_def)

lemma files_mkdir: "files (mkdir_parents p fs) = files fs"
  by (simp add: mkdir_parents_def Let_def)

lemma lower_examples:
  "lower ''StP'' = ''stp'' \<and> lower ''OBJ'' = ''obj'' \<and> lower ''STL'' = ''stl''
   \<and> lower ''stp'' = ''stp'' \<and> lower ''step'' = ''step''"
  by (simp add: lower_def lower_char_def)

subsection \<open>Mirror symmetry of the frame pieces\<close>

lemma inside_foldl_cut:
  "inside (foldl (\<lambda>rails i. Cut (Cut rails (f i)) (g i)) r0 xs) p
     = (inside r0 p \<and> (\<forall>i \<in> set xs. \<not> inside (f i) p \<and> \<not> inside (g i) p))"
  by (induction xs arbitrary: r0) auto

lemma inside_slotted_rails:
  "inside (slotted_rails a c d n) p
     = (inside (rails0 a c d n) p
        \<and> (\<forall>i < nat n. \<not> inside (cut_left a c d n i) p \<and> \<not> inside (cut_right a c d n i) p))"
  unfolding slotted_rails_def inside_foldl_cut by auto

lemma box_mirror_x:
  "inside (Box (cx, cy) dims) (- x, y, z) = inside (Box (- cx, cy) dims) (x, y, z)"
proof -
  have "\<bar>- x - cx\<bar> = \<bar>x - - cx\<bar>" by linarith
  then show ?thesis by (cases dims) simp
qed

lemma box_mirror_y:
  "inside (Box (cx, cy) dims) (x, - y, z) = inside (Box (cx, - cy) dims) (x, y, z)"
proof -
  have "\<bar>- y - cy\<bar> = \<bar>y - - cy\<bar>" by linarith
  then show ?thesis by (cases dims) simp
qed

lemma y_center_mirror:
  assumes "i < nat n"
  shows "y_center c d n (nat n - 1 - i) = - y_center c d n i"
proof -
  have "(of_nat (nat n - 1 - i) :: real) = of_int n - 1 - of_nat i"
    using assms by (simp add: of_nat_diff)
  then show ?thesis
    by (simp add: y_center_def Let_def inner_y_def active_height_def field_simps)
qed

lemma cut_mirror_x:
  "inside (cut_left a c d n i) (- x, y, z) = inside (cut_right a c d n i) (x, y, z)"
  "inside (cut_right a c d n i) (- x, y, z) = inside (cut_left a c d n i) (x, y, z)"
  unfolding cut_left_def cut_right_def box_mirror_x by simp_all

lemma cut_mirror_y:
  assumes "i < nat n"
  shows "inside (cut_left a c d n i) (x, - y, z) = inside (cut_left a c d n (nat n - 1 - i)) (x, y, z)"
    and "inside (cut_right a c d n i) (x, - y, z) = inside (cut_right a c d n (nat n - 1 - i)) (x, y, z)"
  unfolding cut_left_def cut_right_def box_mirror_y y_center_mirror [OF assms] by simp_all

lemma rails0_mirror:
  "inside (rails0 a c d n) (- x, y, z) = inside (rails0 a c d n) (x, y, z)"
  "inside (rails0 a c d n) (x, - y, z) = inside (rails0 a c d n) (x, y, z)"
proof -
  show "inside (rails0 a c d n) (- x, y, z) = inside (rails0 a c d n) (x, y, z)"
    unfolding rails0_def Let_def inside.simps box_mirror_x by auto
  show "inside (rails0 a c d n) (x, - y, z) = inside (rails0 a c d n) (x, y, z)"
    unfolding rails0_def Let_def inside.simps box_mirror_y by simp
qed


lemma all_reindex:
  "(\<forall>i < N. P (N - 1 - i)) = (\<forall>i < (N::nat). P i)"
proof
  assume h: "\<forall>i < N. P (N - 1 - i)"
  show "\<forall>i < N. P i"
  proof (intro allI impI)
    fix i assume "i < N"
    then have "N - 1 - i < N" "N - 1 - (N - 1 - i) = i" by auto
    with h show "P i" by metis
  qed
next
  assume h: "\<forall>i < N. P i"
  show "\<forall>i < N. P (N - 1 - i)"
  proof (intro allI impI)
    fix i assume "i < N"
    then have "N - 1 - i < N" by auto
    with h show "P (N - 1 - i)" by blast
  qed
qed

lemma slotted_rails_mirror_x:
  "inside (slotted_rails a c d n) (- x, y, z) = inside (slotted_rails a c d n) (x, y, z)"
  unfolding inside_slotted_rails rails0_mirror cut_mirror_x by blast

lemma slotted_rails_mirror_y:
  "inside (slotted_rails a c d n) (x, - y, z) = inside (slotted_rails a c d n) (x, y, z)"
proof -
  have "(\<forall>i < nat n. \<not> inside (cut_left a c d n i) (x, - y, z)
                     \<and> \<not> inside (cut_right a c d n i) (x, - y, z))
      = (\<forall>i < nat n. \<not> inside (cut_left a c d n (nat n - 1 - i)) (x, y, z)
                     \<and> \<not> inside (cut_right a c d n (nat n - 1 - i)) (x, y, z))"
    by (simp add: cut_mirror_y)
  also have "\<dots> = (\<forall>i < nat n. \<not> inside (cut_left a c d n i) (x, y, z)
                     \<and> \<not> inside (cut_right a c d n i) (x, y, z))"
    by (rule all_reindex [of "nat n" "\<lambda>i. \<not> inside (cut_left a c d n i) (x, y, z)
                     \<and> \<not> inside (cut_right a c d n i) (x, y, z)"])
  finally show ?thesis
    unfolding inside_slotted_rails rails0_mirror by simp
qed

lemma window_plate_mirror:
  "inside (window_plate a c d n) (- x, y, z) = inside (window_plate a c d n) (x, y, z)"
  "inside (window_plate a c d n) (x, - y, z) = inside (window_plate a c d n) (x, y, z)"
  by (simp_all add: window_plate_def)

lemma centers_sym:
  "\<exists>xl yt. centers a c d n = [(xl, yt), (- xl, yt), (xl, - yt), (- xl, - yt)]"
  by (simp add: centers_def Let_def)

lemma abs_mirror:
  "\<bar>- x - c\<bar> = \<bar>x - - (c::real)\<bar>" "\<bar>- x - - c\<bar> = \<bar>x - c\<bar>"
  by linarith+

lemma connector_cutter_mirror_x:
  "inside (connector_cutter a c d n) (- x, y, z) = inside (connector_cutter a c d n) (x, y, z)"
proof -
  obtain xl yt where cs: "centers a c d n = [(xl, yt), (- xl, yt), (xl, - yt), (- xl, - yt)]"
    using centers_sym by blast
  show ?thesis
    unfolding connector_cutter_def cs inside.simps list_ex_Cons_iff list_ex_Nil_iff fst_conv snd_conv abs_mirror minus_minus
    by blast
qed

lemma connector_cutter_mirror_y:
  "inside (connector_cutter a c d n) (x, - y, z) = inside (connector_cutter a c d n) (x, y, z)"
proof -
  obtain xl yt where cs: "centers a c d n = [(xl, yt), (- xl, yt), (xl, - yt), (- xl, - yt)]"
    using centers_sym by blast
  show ?thesis
    unfolding connector_cutter_def cs inside.simps list_ex_Cons_iff list_ex_Nil_iff fst_conv snd_conv abs_mirror minus_minus
    by blast
qed


lemma cross2_mirror:
  "cross2 (- fst p, snd p) (- fst q, snd q) (- fst r, snd r) = - cross2 p q r"
  by (simp add: cross2_def algebra_simps)

lemma lo_hi_mirror:
  "lo [- a, - b, - c] = - hi [a, b, c]" "hi [- a, - b, - c] = - lo [a, b, c]"
  by (simp_all add: lo_def hi_def min_def max_def)

lemma in_triangle_mirror:
  "in_triangle (- fst p1, snd p1) (- fst p2, snd p2) (- fst p3, snd p3) (- fst q, snd q)
     = in_triangle p1 p2 p3 q"
proof -
  have c: "cross2 (- fst p1, snd p1) (- fst p2, snd p2) (- fst q, snd q) = - cross2 p1 p2 q"
          "cross2 (- fst p2, snd p2) (- fst p3, snd p3) (- fst q, snd q) = - cross2 p2 p3 q"
          "cross2 (- fst p3, snd p3) (- fst p1, snd p1) (- fst q, snd q) = - cross2 p3 p1 q"
    by (rule cross2_mirror)+
  show ?thesis
    unfolding in_triangle_def Let_def c fst_conv snd_conv lo_hi_mirror
    by (simp only: neg_less_0_iff_less neg_0_less_iff_less neg_le_iff_le) blast
qed


lemma wedge_mirror_x:
  "inside (make_wedge_at_edge xe yc s) (- x, y, z)
     = inside (make_wedge_at_edge (- xe) yc (- s)) (x, y, z)"
  using in_triangle_mirror [of "(0, 0)" "(- of_int s * CHAMFER_X, 0)" "(0, CHAMFER_Z)"
                               "(x + xe, z + PLATE_T / 2)"]
  by (simp add: make_wedge_at_edge_def Let_def)

lemma wedge_mirror_y:
  "inside (make_wedge_at_edge xe yc s) (x, - y, z)
     = inside (make_wedge_at_edge xe (- yc) s) (x, y, z)"
  by (auto simp add: make_wedge_at_edge_def Let_def CONNECTOR_H_def)

lemma wedges_sym:
  "\<exists>ws. wedges a c d n = Some ws
     \<and> (\<forall>x y z. inside ws (- x, y, z) = inside ws (x, y, z))
     \<and> (\<forall>x y z. inside ws (x, - y, z) = inside ws (x, y, z))"
proof -
  obtain xl yt where cs: "centers a c d n = [(xl, yt), (- xl, yt), (xl, - yt), (- xl, - yt)]"
    using centers_sym by blast
  define ws where "ws = the (wedges a c d n)"
  have w: "wedges a c d n = Some ws"
    by (simp add: ws_def wedges_def cs add_wedges_def Let_def)
  have mx: "inside ws (- x, y, z) = inside ws (x, y, z)" for x y z
    unfolding ws_def wedges_def cs
    by (simp add: add_wedges_def Let_def wedge_mirror_x add.commute [of _ xl]) blast
  have my: "inside ws (x, - y, z) = inside ws (x, y, z)" for x y z
    unfolding ws_def wedges_def cs
    by (simp add: add_wedges_def Let_def wedge_mirror_y) blast
  show ?thesis using w mx my by blast
qed

lemma frame_body_mirror:
  "inside (frame_body a c d n) (- x, y, z) = inside (frame_body a c d n) (x, y, z)"
  "inside (frame_body a c d n) (x, - y, z) = inside (frame_body a c d n) (x, y, z)"
proof -
  obtain ws where w: "wedges a c d n = Some ws"
     and mx: "\<And>x y z. inside ws (- x, y, z) = inside ws (x, y, z)"
     and my: "\<And>x y z. inside ws (x, - y, z) = inside ws (x, y, z)"
    using wedges_sym by blast
  show "inside (frame_body a c d n) (- x, y, z) = inside (frame_body a c d n) (x, y, z)"
    by (simp add: frame_body_def Let_def w mx window_plate_mirror slotted_rails_mirror_x
        connector_cutter_mirror_x)
  show "inside (frame_body a c d n) (x, - y, z) = inside (frame_body a c d n) (x, y, z)"
    by (simp add: frame_body_def Let_def w my window_plate_mirror slotted_rails_mirror_y
        connector_cutter_mirror_y)
qed

lemma inside_connector_chamfers: "inside (connector_chamfers cs f) p = inside f p"
proof -
  have "inside (foldl (\<lambda>f ctr. Chamfer (s2 ctr) z (Chamfer (s1 ctr) z f)) f cs) p = inside f p"
    for s1 s2 :: "vec2 \<Rightarrow> edge_sel" and z
    by (induction cs arbitrary: f) auto
  then show ?thesis by (simp add: connector_chamfers_def)
qed

lemma inside_make_frame: "inside (make_frame a c d n) p = inside (frame_body a c d n) p"
  by (simp add: make_frame_def corner_chamfers_def inside_connector_chamfers)

lemma chamfers_frame_body: "chamfers (frame_body a c d n) = []"
proof -
  obtain ws where w: "wedges a c d n = Some ws" using wedges_sym by blast
  show ?thesis by (simp add: frame_body_def Let_def w)
qed

lemma chamfers_make_frame:
  "\<exists>xl yt. chamfers (make_frame a c d n) =
     [(NearestParallelY (xl - CONNECTOR_W / 2, yt, PLATE_T / 2), CONNECTOR_TOP_CH),
      (NearestParallelY (xl + CONNECTOR_W / 2, yt, PLATE_T / 2), CONNECTOR_TOP_CH),
      (NearestParallelY (- xl - CONNECTOR_W / 2, yt, PLATE_T / 2), CONNECTOR_TOP_CH),
      (NearestParallelY (- xl + CONNECTOR_W / 2, yt, PLATE_T / 2), CONNECTOR_TOP_CH),
      (NearestParallelY (xl - CONNECTOR_W / 2, - yt, PLATE_T / 2), CONNECTOR_TOP_CH),
      (NearestParallelY (xl + CONNECTOR_W / 2, - yt, PLATE_T / 2), CONNECTOR_TOP_CH),
      (NearestParallelY (- xl - CONNECTOR_W / 2, - yt, PLATE_T / 2), CONNECTOR_TOP_CH),
      (NearestParallelY (- xl + CONNECTOR_W / 2, - yt, PLATE_T / 2), CONNECTOR_TOP_CH),
      (FaceEdgesParallelZ MaxX, OUTER_CORNER_CH),
      (FaceEdgesParallelZ MinX, OUTER_CORNER_CH)]"
proof -
  obtain xl yt where cs: "centers a c d n = [(xl, yt), (- xl, yt), (xl, - yt), (- xl, - yt)]"
    using centers_sym by blast
  have "CONNECTOR_TOP_CH > 0" "OUTER_CORNER_CH > 0" by (simp_all add: frame_consts)
  then show ?thesis
    by (simp add: make_frame_def corner_chamfers_def connector_chamfers_def cs chamfers_frame_body)
qed

subsection \<open>Vertical extent of the bone, the frame and the assembly\<close>

lemma rot_x_90: "rot AxX 90 (x, y, z) = (x, - z, y)"
proof -
  have "(90::real) * pi / 180 = pi / 2" by simp
  then show ?thesis by (simp add: rot_def)
qed

lemma rot_x_m90: "rot AxX (- 90) (x, y, z) = (x, z, - y)"
proof -
  have "- (90::real) * pi / 180 = - (pi / 2)" by simp
  then show ?thesis by (simp add: rot_def)
qed

lemma edges_from_subset:
  "e \<in> set (edges_from p0 ps) \<Longrightarrow> fst e \<in> set ps \<and> snd e \<in> insert p0 (set ps)"
  by (induction p0 ps rule: edges_from.induct) auto

lemma edges_subset:
  "e \<in> set (edges ps) \<Longrightarrow> fst e \<in> set ps \<and> snd e \<in> set ps"
  by (cases ps) (auto simp: edges_def dest: edges_from_subset)

lemma on_segment_bounds:
  assumes "on_segment e q"
  shows "(snd (fst e) \<le> snd q \<or> snd (snd e) \<le> snd q)
         \<and> (snd q \<le> snd (fst e) \<or> snd q \<le> snd (snd e))"
  using assms by (auto simp: on_segment_def min_def max_def split: if_splits)

lemma crosses_ray_bounds:
  assumes "crosses_ray e q"
  shows "(snd (fst e) \<le> snd q \<or> snd (snd e) \<le> snd q)
         \<and> (snd q \<le> snd (fst e) \<or> snd q \<le> snd (snd e))"
  using assms by (auto simp: crosses_ray_def)

lemma in_polygon_edge:
  assumes "in_polygon ps q" "4 \<le> length ps"
  shows "\<exists>e \<in> set (edges ps). on_segment e q \<or> crosses_ray e q"
proof -
  obtain p1 p2 p3 p4 r where ps: "ps = p1 # p2 # p3 # p4 # r"
    using assms(2) by (cases ps; simp) (metis Suc_le_length_iff numeral_3_eq_3 list.size(3) not_less_eq_eq le0 length_Cons neq_Nil_conv)
  have "list_ex (\<lambda>e. on_segment e q) (edges ps)
        \<or> odd (length (filter (\<lambda>e. crosses_ray e q) (edges ps)))"
    using assms(1) unfolding ps by simp
  then show ?thesis
  proof
    assume "list_ex (\<lambda>e. on_segment e q) (edges ps)"
    then show ?thesis by (auto simp: list_ex_iff)
  next
    assume "odd (length (filter (\<lambda>e. crosses_ray e q) (edges ps)))"
    then have "filter (\<lambda>e. crosses_ray e q) (edges ps) \<noteq> []" by auto
    then show ?thesis by (auto simp: filter_empty_conv)
  qed
qed

lemma in_polygon_ybounds:
  assumes "in_polygon ps q" "4 \<le> length ps"
  shows "(\<exists>p \<in> set ps. snd p \<le> snd q) \<and> (\<exists>p \<in> set ps. snd q \<le> snd p)"
proof -
  obtain e where e: "e \<in> set (edges ps)" "on_segment e q \<or> crosses_ray e q"
    using in_polygon_edge [OF assms] by blast
  have b: "(snd (fst e) \<le> snd q \<or> snd (snd e) \<le> snd q)
         \<and> (snd q \<le> snd (fst e) \<or> snd q \<le> snd (snd e))"
    using e(2) on_segment_bounds crosses_ray_bounds by blast
  have "fst e \<in> set ps" "snd e \<in> set ps" using edges_subset [OF e(1)] by auto
  with b show ?thesis by blast
qed


lemma inside_foldl_chamfer:
  "inside (foldl (\<lambda>s m. Chamfer (sel m) sz s) s0 ms) p = inside s0 p"
  by (induction ms arbitrary: s0) auto

lemma BoundingBox_foldl_chamfer:
  "BoundingBox (foldl (\<lambda>s m. Chamfer (sel m) sz s) s0 ms) = BoundingBox s0"
  by (induction ms arbitrary: s0) auto

lemma inside_make_bone:
  "inside (make_bone p) q = inside (ExtrudeXY (bone_pts p) (par_thickness p)) q"
  by (simp add: make_bone_def Let_def inside_foldl_chamfer)

lemma BoundingBox_make_bone:
  "BoundingBox (make_bone p) = BoundingBox (ExtrudeXY (bone_pts p) (par_thickness p))"
  by (simp add: make_bone_def Let_def BoundingBox_foldl_chamfer)

lemma bone_y_inner_range:
  assumes "PLATE_T < b"
  shows "0 < Y_INNER (DEFAULTS \<lparr> par_b := b \<rparr>)"
    and "Y_INNER (DEFAULTS \<lparr> par_b := b \<rparr>) < b / 2"
  using assms
  by (auto simp: Y_INNER_def clamp_dovetail_def DEFAULTS_def PLATE_T_def max_def min_def)

lemma bone_pts_ys:
  assumes "PLATE_T < b" "p \<in> set (bone_pts (DEFAULTS \<lparr> par_b := b \<rparr>))"
  shows "- (b / 2) \<le> snd p \<and> snd p \<le> b / 2"
proof -
  have "0 < Y_INNER (DEFAULTS \<lparr> par_b := b \<rparr>)"
       "Y_INNER (DEFAULTS \<lparr> par_b := b \<rparr>) < b / 2"
    using bone_y_inner_range [OF assms(1)] by auto
  with assms(2) show ?thesis
    by (auto simp: bone_pts_def Let_def Y_OUTER_def)
qed

lemma inside_bone_ybounds:
  assumes "PLATE_T < b" "inside (make_bone (DEFAULTS \<lparr> par_b := b \<rparr>)) (x, y, z)"
  shows "- (b / 2) \<le> y \<and> y \<le> b / 2"
proof -
  have ip: "in_polygon (bone_pts (DEFAULTS \<lparr> par_b := b \<rparr>)) (x, y)"
    using assms(2) by (simp add: inside_make_bone)
  have len: "4 \<le> length (bone_pts (DEFAULTS \<lparr> par_b := b \<rparr>))"
    by (simp add: bone_pts_def Let_def)
  obtain p q where pq: "p \<in> set (bone_pts (DEFAULTS \<lparr> par_b := b \<rparr>))" "snd p \<le> y"
     "q \<in> set (bone_pts (DEFAULTS \<lparr> par_b := b \<rparr>))" "y \<le> snd q"
    using in_polygon_ybounds [OF ip len] by auto
  have "- (b / 2) \<le> snd p" using bone_pts_ys [OF assms(1) pq(1)] by simp
  moreover have "snd q \<le> b / 2" using bone_pts_ys [OF assms(1) pq(3)] by simp
  ultimately show ?thesis using pq(2) pq(4) by linarith
qed

lemma inside_bone_raw_zbounds:
  assumes "PLATE_T < b" "inside (bone_raw b) (x, y, z)"
  shows "- (b / 2) \<le> z \<and> z \<le> b / 2"
  using assms(2) inside_bone_ybounds [OF assms(1), of x z "- y"]
  by (simp add: bone_raw_def rot_x_m90)

lemma inside_frame_zbounds:
  assumes "inside (make_frame a c d n) (x, y, z)"
  shows "\<bar>z\<bar> \<le> PLATE_T / 2"
proof -
  have "inside (window_plate a c d n) (x, y, z) \<or> inside (slotted_rails a c d n) (x, y, z)"
    using assms by (auto simp: inside_make_frame frame_body_def Let_def split: option.splits)
  then show ?thesis
    by (auto simp: window_plate_def inside_slotted_rails rails0_def Let_def)
qed


lemma wedge_yrange:
  "inside (make_wedge_at_edge xe yc s) (x, y, z) \<Longrightarrow> \<bar>y + yc\<bar> \<le> CONNECTOR_H / 2"
  unfolding make_wedge_at_edge_def Let_def CONNECTOR_H_def inside.simps
  by linarith

lemma frame_point_inside:
  assumes "0 < a" "0 < c" "0 < d" "1 \<le> n" "\<bar>z\<bar> \<le> PLATE_T / 2"
  shows "inside (make_frame a c d n) (outer_x a / 2 - 1, 0, z)"
proof -
  obtain ws where w: "wedges a c d n = Some ws" using wedges_sym by blast
  have iy: "0 < inner_y c d n" using assms by (simp add: inner_y_pos)
  have nw: "\<not> inside (make_wedge_at_edge xe yc s) (x, 0, z')"
    if "CONNECTOR_H / 2 < \<bar>yc\<bar>" for xe yc s x z'
    using wedge_yrange [of xe yc s x 0 z'] that by auto
  have oy: "outer_y c d n = inner_y c d n + 24"
    by (simp add: outer_y_def frame_consts)
  have H: "CONNECTOR_H = 5"
    by (simp add: CONNECTOR_H_def)
  have yt: "CONNECTOR_H / 2 < \<bar>outer_y c d n / 2 - CONNECTOR_H / 2\<bar>"
    using iy unfolding oy H by argo
  have yb: "CONNECTOR_H / 2 < \<bar>CONNECTOR_H / 2 - outer_y c d n / 2\<bar>"
    using iy unfolding oy H by argo
  have ws: "\<not> inside ws (x, 0, z')" for x z'
    using w unfolding wedges_def centers_def Let_def
    by (auto simp: add_wedges_def Let_def nw [OF yt] nw [OF yb])
  have cc: "\<not> inside (connector_cutter a c d n) (x, 0, z')" for x z'
    using yt yb
    by (auto simp: connector_cutter_def centers_def Let_def)
  have wp: "inside (window_plate a c d n) (outer_x a / 2 - 1, 0, z)"
    using assms(1,5) iy
    by (auto simp: window_plate_def outer_x_def outer_y_def inner_x_def frame_consts)
  show ?thesis
    using wp cc ws
    by (simp add: inside_make_frame frame_body_def Let_def w)
qed


lemma bb_hull_z:
  "zmin (bb_hull p q) = min (zmin p) (zmin q)" "zmax (bb_hull p q) = max (zmax p) (zmax q)"
  by (simp_all add: bb_hull_def)

lemma bone_bbox_y:
  assumes "PLATE_T < b"
  shows "ymin (BoundingBox (make_bone (DEFAULTS \<lparr> par_b := b \<rparr>))) = - (b / 2)"
    and "ymax (BoundingBox (make_bone (DEFAULTS \<lparr> par_b := b \<rparr>))) = b / 2"
proof -
  have yi: "0 < Y_INNER (DEFAULTS \<lparr> par_b := b \<rparr>)"
       "Y_INNER (DEFAULTS \<lparr> par_b := b \<rparr>) < b / 2"
    using bone_y_inner_range [OF assms] by auto
  show "ymin (BoundingBox (make_bone (DEFAULTS \<lparr> par_b := b \<rparr>))) = - (b / 2)"
    using yi by (simp add: BoundingBox_make_bone bone_pts_def Let_def Y_OUTER_def lo_def min_def)
  show "ymax (BoundingBox (make_bone (DEFAULTS \<lparr> par_b := b \<rparr>))) = b / 2"
    using yi by (simp add: BoundingBox_make_bone bone_pts_def Let_def Y_OUTER_def hi_def max_def)
qed

lemma bone_raw_bbox_z:
  assumes "PLATE_T < b"
  shows "zmin (BoundingBox (bone_raw b)) = - (b / 2)"
    and "zmax (BoundingBox (bone_raw b)) = b / 2"
proof -
  have b: "0 < b" using assms by (simp add: PLATE_T_def)
  show "zmin (BoundingBox (bone_raw b)) = - (b / 2)"
    using b by (simp add: bone_raw_def corners_of_def box_of_points_def rot_x_90 lo_def
        bone_bbox_y [OF assms] min_def)
  show "zmax (BoundingBox (bone_raw b)) = b / 2"
    using b by (simp add: bone_raw_def corners_of_def box_of_points_def rot_x_90 hi_def
        bone_bbox_y [OF assms] max_def)
qed

lemma frame_bbox_z:
  assumes "0 < a" "0 < c" "0 < d" "1 \<le> n"
  shows "zmin (BoundingBox (make_frame a c d n)) = - PLATE_T / 2"
    and "zmax (BoundingBox (make_frame a c d n)) = PLATE_T / 2"
  by (simp_all add: BoundingBox_make_frame BoundingBox_frame_body [OF assms])

lemma move_plain: "move (shp, t, (0, 0, 0)) = Translate t shp"
  by (simp add: move_def)

lemma compose_assembly:
  "compose (make_assembly a c d n b) =
     Compound (Translate (0, 0, 0) (frame_bottom a c d n)
               # Translate (0, 0, 0) (frame_top a c d n b)
               # map (\<lambda>cnr. Translate (bone_translation (par_thickness DEFAULTS) (b / 2) cnr)
                                        (bone_raw b)) (corners a c d n))"
  by (simp add: compose_def make_assembly_def Let_def move_plain comp_def)

lemma compose_bbox_z:
  assumes "0 < a" "0 < c" "0 < d" "1 \<le> n" "PLATE_T < b"
  shows "zmin (BoundingBox (compose (make_assembly a c d n b))) = 0"
    and "zmax (BoundingBox (compose (make_assembly a c d n b))) = b"
proof -
  have v: "0 < a" "0 < c" "0 < d" "1 \<le> n" using assms by auto
  have b: "8 < b" using assms(5) by (simp add: PLATE_T_def)
  show "zmin (BoundingBox (compose (make_assembly a c d n b))) = 0"
    using b
    by (simp add: compose_assembly corners_valid [OF v] bone_translation_def Let_def
        frame_bottom_def frame_top_def bb_hull_z frame_bbox_z [OF v]
        bone_raw_bbox_z [OF assms(5)] PLATE_T_def)
  show "zmax (BoundingBox (compose (make_assembly a c d n b))) = b"
    using b
    by (simp add: compose_assembly corners_valid [OF v] bone_translation_def Let_def
        frame_bottom_def frame_top_def bb_hull_z frame_bbox_z [OF v]
        bone_raw_bbox_z [OF assms(5)] PLATE_T_def)
qed


lemma inside_compose_assembly:
  "inside (compose (make_assembly a c d n b)) (x, y, z) =
     (inside (make_frame a c d n) (x, y, z - PLATE_T / 2)
      \<or> inside (make_frame a c d n) (x, y, - (z - (b - PLATE_T / 2)))
      \<or> (\<exists>cnr \<in> set (corners a c d n).
            inside (bone_raw b)
              (x - fst (bone_translation (par_thickness DEFAULTS) (b / 2) cnr),
               y - fst (snd (bone_translation (par_thickness DEFAULTS) (b / 2) cnr)),
               z - b / 2)))"
proof -
  have t: "inside (Translate (bone_translation th (b / 2) cnr) s) (x, y, z) =
           inside s (x - fst (bone_translation th (b / 2) cnr),
                     y - fst (snd (bone_translation th (b / 2) cnr)), z - b / 2)"
    for th cnr s
    by (simp add: bone_translation_def Let_def)
  show ?thesis
    by (simp add: compose_assembly frame_bottom_def frame_top_def list_ex_iff t)
qed

lemma inside_compose_zbounds:
  assumes "PLATE_T < b" "inside (compose (make_assembly a c d n b)) (x, y, z)"
  shows "0 \<le> z \<and> z \<le> b"
proof -
  have T: "PLATE_T = 8" by (simp add: PLATE_T_def)
  consider "inside (make_frame a c d n) (x, y, z - PLATE_T / 2)"
    | "inside (make_frame a c d n) (x, y, - (z - (b - PLATE_T / 2)))"
    | x' y' where "inside (bone_raw b) (x', y', z - b / 2)"
    using assms(2) unfolding inside_compose_assembly by blast
  then show ?thesis
  proof cases
    case 1
    from inside_frame_zbounds [OF this] show ?thesis using assms(1) unfolding T by argo
  next
    case 2
    from inside_frame_zbounds [OF this] show ?thesis using assms(1) unfolding T by argo
  next
    case 3
    from inside_bone_raw_zbounds [OF assms(1) this] show ?thesis by argo
  qed
qed

lemma compose_extreme_points:
  assumes "0 < a" "0 < c" "0 < d" "1 \<le> n"
  shows "inside (compose (make_assembly a c d n b)) (outer_x a / 2 - 1, 0, 0)"
    and "inside (compose (make_assembly a c d n b)) (outer_x a / 2 - 1, 0, b)"
proof -
  have p: "inside (make_frame a c d n) (outer_x a / 2 - 1, 0, - (PLATE_T / 2))"
    using frame_point_inside [OF assms, of "- (PLATE_T / 2)"] by (simp add: PLATE_T_def)
  show "inside (compose (make_assembly a c d n b)) (outer_x a / 2 - 1, 0, 0)"
    unfolding inside_compose_assembly using p by simp
  show "inside (compose (make_assembly a c d n b)) (outer_x a / 2 - 1, 0, b)"
    unfolding inside_compose_assembly using p by simp
qed

section \<open>Frame dimensions\<close>

text \<open>
  C4. The derived frame dimensions are \<open>inner_x = a + LEN_EXTRA\<close>,
  \<open>inner_y = n c + (n+1) d\<close>, \<open>outer_x = inner_x + 2 FRAME_WALL_X\<close> and
  \<open>outer_y = inner_y + 2 (FRAME_WALL_Y + TOP_BOTTOM_MARGIN)\<close>; for
  \<open>a = 90\<close>, \<open>c = 1.6\<close>, \<open>d = 10\<close>, \<open>n = 10\<close> they are 95, 126, 109 and 150,
  with \<open>FRAME_WALL_X = 7\<close>.
\<close>

theorem frame_dimensions:
  "inner_x a = a + LEN_EXTRA
   \<and> inner_y c d n = of_int n * c + (of_int n + 1) * d
   \<and> outer_x a = inner_x a + 2 * FRAME_WALL_X
   \<and> outer_y c d n = inner_y c d n + 2 * (FRAME_WALL_Y + TOP_BOTTOM_MARGIN)
   \<and> FRAME_WALL_X = 7
   \<and> inner_y 1.6 10 10 = 126 \<and> inner_x 90 = 95 \<and> outer_x 90 = 109
   \<and> outer_y 1.6 10 10 = 150"
  by (simp add: inner_x_def inner_y_def outer_x_def outer_y_def active_height_def frame_consts)

section \<open>Bone profile\<close>

text \<open>
  C7. The 13 profile points are symmetric under \<open>x \<mapsto> -x\<close>: mirroring every
  point of the list gives the same set of points, for every parameter set; the mirror
  exchanges P1 with P2, P3 with P12, P4 with P11, P5 with P10, P6 with P9 and P7 with P8.
\<close>

theorem bone_profile_x_symmetric:
  "length (bone_pts p) = 13
   \<and> mirror_x2 ` set (bone_pts p) = set (bone_pts p)
   \<and> mirror_x2 (bone_pts p ! 0) = bone_pts p ! 1
   \<and> mirror_x2 (bone_pts p ! 2) = bone_pts p ! 11
   \<and> mirror_x2 (bone_pts p ! 3) = bone_pts p ! 10
   \<and> mirror_x2 (bone_pts p ! 4) = bone_pts p ! 9
   \<and> mirror_x2 (bone_pts p ! 5) = bone_pts p ! 8
   \<and> mirror_x2 (bone_pts p ! 6) = bone_pts p ! 7
   \<and> mirror_x2 (bone_pts p ! 12) = bone_pts p ! 1"
  by (auto simp: bone_pts_def mirror_x2_def Let_def image_iff)

lemma clamp_dovetail_replacement:
  assumes "l \<le> 0 \<or> h \<le> l"
  shows "clamp_dovetail h l = max 0.1 (min (h * 0.45) l)" and "0.1 \<le> clamp_dovetail h l"
  using assms by (auto simp: clamp_dovetail_def)

lemma clamp_dovetail_in_range:
  assumes "0.1 < h"
  shows "0 < clamp_dovetail h l" and "clamp_dovetail h l < h"
  using assms by (auto simp: clamp_dovetail_def max_def min_def)

lemma clamp_dovetail_examples:
  "clamp_dovetail (5 / 2) 8 = 1.125" "clamp_dovetail (80 / 2) 8 = 8"
  "Y_OUTER (DEFAULTS \<lparr> par_b := 80 \<rparr>) = 40" "Y_INNER (DEFAULTS \<lparr> par_b := 80 \<rparr>) = 32"
  by (simp_all add: clamp_dovetail_def Y_OUTER_def Y_INNER_def DEFAULTS_def)

text \<open>
  C1. The clamp of lines 49--50 is there to keep the dovetail length strictly between 0
  and \<open>b/2\<close>, so that the shoulder never reaches or crosses the tip. Whenever the clamp
  is taken the length becomes \<open>max(0.1, min(0.45 (b/2), l_dovetail))\<close>
  (\<open>clamp_dovetail_replacement\<close>), and for \<open>b/2 > 0.1\<close> the result lies strictly
  between 0 and \<open>b/2\<close> (\<open>clamp_dovetail_in_range\<close>). For a short bone the fixed floor
  0.1 defeats the guard: with \<open>b = 0.125\<close> and the default \<open>l_dovetail = 8\<close> the clamp
  is taken, the clamped length is 0.1, which is not below \<open>b/2 = 0.0625\<close>, and
  \<open>y_inner = -0.0375\<close> is negative. The shoulder points P3 and P6 change sides, and the
  profile edges P2--P3 and P6--P7 meet in the point \<open>(-4.5, 0)\<close>: the outline
  intersects itself.
\<close>

theorem dovetail_clamp_short_bone:
  "(0::real) < 0.125 \<and> (0.125::real) / 2 \<le> 8
   \<and> clamp_dovetail (0.125 / 2) 8 = max 0.1 (min (0.45 * (0.125 / 2)) 8)
   \<and> clamp_dovetail (0.125 / 2) 8 = 0.1
   \<and> \<not> clamp_dovetail (0.125 / 2) 8 < 0.125 / 2
   \<and> Y_INNER (DEFAULTS \<lparr> par_b := 0.125 \<rparr>) = - 0.0375
   \<and> \<not> 0 < Y_INNER (DEFAULTS \<lparr> par_b := 0.125 \<rparr>)
   \<and> bone_pts (DEFAULTS \<lparr> par_b := 0.125 \<rparr>) ! 1 = (- 7, 0.0625)
   \<and> bone_pts (DEFAULTS \<lparr> par_b := 0.125 \<rparr>) ! 2 = (- 3, - 0.0375)
   \<and> bone_pts (DEFAULTS \<lparr> par_b := 0.125 \<rparr>) ! 5 = (- 3, 0.0375)
   \<and> bone_pts (DEFAULTS \<lparr> par_b := 0.125 \<rparr>) ! 6 = (- 7, - 0.0625)
   \<and> on_segment (bone_pts (DEFAULTS \<lparr> par_b := 0.125 \<rparr>) ! 1,
                   bone_pts (DEFAULTS \<lparr> par_b := 0.125 \<rparr>) ! 2) (- 4.5, 0)
   \<and> on_segment (bone_pts (DEFAULTS \<lparr> par_b := 0.125 \<rparr>) ! 5,
                   bone_pts (DEFAULTS \<lparr> par_b := 0.125 \<rparr>) ! 6) (- 4.5, 0)"
proof -
  have c: "clamp_dovetail (0.125 / 2) 8 = 0.1"
    by (simp add: clamp_dovetail_def)
  have yi: "Y_INNER (DEFAULTS \<lparr> par_b := 0.125 \<rparr>) = - 0.0375"
    by (simp add: Y_INNER_def DEFAULTS_def clamp_dovetail_def)
  have yo: "Y_OUTER (DEFAULTS \<lparr> par_b := 0.125 \<rparr>) = 0.0625"
    by (simp add: Y_OUTER_def DEFAULTS_def)
  have pts: "bone_pts (DEFAULTS \<lparr> par_b := 0.125 \<rparr>) =
      [(7, 0.0625), (- 7, 0.0625), (- 3, - 0.0375), (- 5, - 0.0375), (- 5, 0.0375),
       (- 3, 0.0375), (- 7, - 0.0625), (7, - 0.0625), (3, 0.0375), (5, 0.0375),
       (5, - 0.0375), (3, - 0.0375), (7, 0.0625)]"
    unfolding bone_pts_def Let_def yi yo by (simp add: DEFAULTS_def)
  show ?thesis
    unfolding pts c yi
    by (simp add: on_segment_def cross2_def)
qed

section \<open>Slot layout\<close>



section \<open>Assembly placements\<close>

text \<open>
  C2. For valid parameters and \<open>b > PLATE_T\<close> the assembly spans exactly
  \<open>Z \<in> [0, b]\<close>. The bottom frame is the frame translated by \<open>(0, 0, PLATE_T/2)\<close>; its
  underside lies at \<open>Z = 0\<close>. The top frame is the frame mirrored across the XY plane and
  translated by \<open>(0, 0, b - PLATE_T/2)\<close>; its top face lies at \<open>Z = b\<close>. Every bone is
  the bone rotated by 90 degrees about X, placed with Z-translation \<open>b/2\<close>, and spans
  \<open>Z = 0\<close> to \<open>Z = b\<close>. The bounding box of the composed assembly has \<open>zmin = 0\<close>,
  \<open>zmax = b\<close> and Z-length \<open>b\<close>; every point of the composed assembly has
  \<open>0 \<le> z \<le> b\<close>, and both bounds are attained.
\<close>

theorem assembly_z_span:
  assumes "0 < a" "0 < c" "0 < d" "1 \<le> n" "PLATE_T < b"
  shows "fst (make_assembly a c d n b ! 0) = Translate (0, 0, PLATE_T / 2) (make_frame a c d n)
   \<and> fst (make_assembly a c d n b ! 1)
       = Translate (0, 0, b - PLATE_T / 2) (MirrorXY (make_frame a c d n))
   \<and> map fst (drop 2 (make_assembly a c d n b))
       = replicate 4 (Rotate AxX 90 (make_bone (DEFAULTS \<lparr> par_b := b \<rparr>)))
   \<and> map (snd \<circ> snd \<circ> fst \<circ> snd) (drop 2 (make_assembly a c d n b)) = replicate 4 (b / 2)
   \<and> zmin (BoundingBox (move (make_assembly a c d n b ! 0))) = 0
   \<and> zmax (BoundingBox (move (make_assembly a c d n b ! 0))) = PLATE_T
   \<and> zmin (BoundingBox (move (make_assembly a c d n b ! 1))) = b - PLATE_T
   \<and> zmax (BoundingBox (move (make_assembly a c d n b ! 1))) = b
   \<and> map (\<lambda>pl. (zmin (BoundingBox (move pl)), zmax (BoundingBox (move pl))))
          (drop 2 (make_assembly a c d n b)) = replicate 4 (0, b)
   \<and> zmin (BoundingBox (compose (make_assembly a c d n b))) = 0
   \<and> zmax (BoundingBox (compose (make_assembly a c d n b))) = b
   \<and> zlen (BoundingBox (compose (make_assembly a c d n b))) = b
   \<and> (\<forall>x y z. inside (compose (make_assembly a c d n b)) (x, y, z) \<longrightarrow> 0 \<le> z \<and> z \<le> b)
   \<and> (\<exists>x y. inside (compose (make_assembly a c d n b)) (x, y, 0))
   \<and> (\<exists>x y. inside (compose (make_assembly a c d n b)) (x, y, b))"
proof -
  have v: "0 < a" "0 < c" "0 < d" "1 \<le> n" using assms by auto
  have s1: "fst (make_assembly a c d n b ! 0) = Translate (0, 0, PLATE_T / 2) (make_frame a c d n)"
    by (simp add: make_assembly_def Let_def frame_bottom_def)
  have s2: "fst (make_assembly a c d n b ! 1)
       = Translate (0, 0, b - PLATE_T / 2) (MirrorXY (make_frame a c d n))"
    by (simp add: make_assembly_def Let_def frame_top_def)
  have s3: "map fst (drop 2 (make_assembly a c d n b))
       = replicate 4 (Rotate AxX 90 (make_bone (DEFAULTS \<lparr> par_b := b \<rparr>)))"
    by (simp add: make_assembly_def Let_def corners_def bone_raw_def numeral_eq_Suc)
  have s4: "map (snd \<circ> snd \<circ> fst \<circ> snd) (drop 2 (make_assembly a c d n b)) = replicate 4 (b / 2)"
    by (simp add: make_assembly_def Let_def corners_def bone_translation_def numeral_eq_Suc)
  have f1: "zmin (BoundingBox (move (make_assembly a c d n b ! 0))) = 0"
           "zmax (BoundingBox (move (make_assembly a c d n b ! 0))) = PLATE_T"
    by (simp_all add: make_assembly_def Let_def move_plain frame_bottom_def frame_bbox_z [OF v])
  have f2: "zmin (BoundingBox (move (make_assembly a c d n b ! 1))) = b - PLATE_T"
           "zmax (BoundingBox (move (make_assembly a c d n b ! 1))) = b"
    by (simp_all add: make_assembly_def Let_def move_plain frame_top_def frame_bbox_z [OF v])
  have f3: "map (\<lambda>pl. (zmin (BoundingBox (move pl)), zmax (BoundingBox (move pl))))
          (drop 2 (make_assembly a c d n b)) = replicate 4 (0, b)"
    by (simp add: make_assembly_def Let_def corners_def move_plain bone_translation_def
        bone_raw_bbox_z [OF assms(5)] numeral_eq_Suc)
  note bz = compose_bbox_z [OF assms]
  have zl: "zlen (BoundingBox (compose (make_assembly a c d n b))) = b"
    by (simp add: zlen_def bz)
  have ub: "\<forall>x y z. inside (compose (make_assembly a c d n b)) (x, y, z) \<longrightarrow> 0 \<le> z \<and> z \<le> b"
    using inside_compose_zbounds [OF assms(5)] by blast
  have e0: "\<exists>x y. inside (compose (make_assembly a c d n b)) (x, y, 0)"
    using compose_extreme_points(1) [OF v] by blast
  have e1: "\<exists>x y. inside (compose (make_assembly a c d n b)) (x, y, b)"
    using compose_extreme_points(2) [OF v] by blast
  show ?thesis
    by (intro conjI s1 s2 s3 s4 f1 f2 f3 bz zl ub e0 e1)
qed

theorem assembly_z_span_witness:
  "(0::real) < 90 \<and> (0::real) < 1.6 \<and> (0::real) < 10 \<and> (1::int) \<le> 10 \<and> PLATE_T < 120
   \<and> zmin (BoundingBox (compose (make_assembly 90 1.6 10 10 120))) = 0
   \<and> zmax (BoundingBox (compose (make_assembly 90 1.6 10 10 120))) = 120
   \<and> zlen (BoundingBox (compose (make_assembly 90 1.6 10 10 120))) = 120
   \<and> zmax (BoundingBox (move (make_assembly 90 1.6 10 10 120 ! 0))) = 8
   \<and> zmin (BoundingBox (move (make_assembly 90 1.6 10 10 120 ! 1))) = 112"
  using assembly_z_span [of 90 "1.6" 10 10 120]
  by (simp add: PLATE_T_def)

text \<open>
  C5. \<open>make_assembly\<close> returns exactly 6 placements, in the order frame-bottom,
  frame-top, bone, bone, bone, bone; every placement carries the rotation \<open>(0,0,0)\<close>, and
  the four bone placements hold one and the same rotated bone solid, so they differ only
  in their translations.
\<close>

theorem assembly_six_placements:
  "length (make_assembly a c d n b) = 6
   \<and> map fst (make_assembly a c d n b) =
       [frame_bottom a c d n, frame_top a c d n b, bone_raw b, bone_raw b, bone_raw b, bone_raw b]
   \<and> map (snd \<circ> snd) (make_assembly a c d n b) = replicate 6 (0, 0, 0)"
  by (simp add: make_assembly_def corners_def Let_def numeral_eq_Suc)

text \<open>
  C6. For each of the four bounding-box corners \<open>(x, y)\<close> of the bottom frame, in the
  order of the list \<open>corners\<close>, the bone translation has X-component \<open>x - BONE_X_INSET\<close>
  when \<open>x > 0\<close> and \<open>x + BONE_X_INSET\<close> when \<open>x < 0\<close>, Y-component
  \<open>y + bone_thickness\<close> when \<open>y < 0\<close> and \<open>y\<close> when \<open>y \<ge> 0\<close>, and Z-component \<open>b/2\<close>.
  For valid parameters the corners are \<open>(\<plusminus>outer_x/2, \<plusminus>outer_y/2)\<close> and the four
  translations are as listed.
\<close>

theorem bone_positions:
  "(i < 4 \<longrightarrow>
      (let cnr = corners a c d n ! i;
           t = fst (snd (make_assembly a c d n b ! (2 + i)))
       in (fst cnr > 0 \<longrightarrow> fst t = fst cnr - BONE_X_INSET)
          \<and> (fst cnr < 0 \<longrightarrow> fst t = fst cnr + BONE_X_INSET)
          \<and> (snd cnr < 0 \<longrightarrow> fst (snd t) = snd cnr + par_thickness DEFAULTS)
          \<and> (snd cnr \<ge> 0 \<longrightarrow> fst (snd t) = snd cnr)
          \<and> snd (snd t) = b / 2))
   \<and> (0 < a \<and> 0 < c \<and> 0 < d \<and> 1 \<le> n \<longrightarrow>
        corners a c d n =
          [(outer_x a / 2, outer_y c d n / 2), (- outer_x a / 2, outer_y c d n / 2),
           (- outer_x a / 2, - outer_y c d n / 2), (outer_x a / 2, - outer_y c d n / 2)]
        \<and> map (fst \<circ> snd) (drop 2 (make_assembly a c d n b)) =
          [(outer_x a / 2 - BONE_X_INSET, outer_y c d n / 2, b / 2),
           (- outer_x a / 2 + BONE_X_INSET, outer_y c d n / 2, b / 2),
           (- outer_x a / 2 + BONE_X_INSET, - outer_y c d n / 2 + par_thickness DEFAULTS, b / 2),
           (outer_x a / 2 - BONE_X_INSET, - outer_y c d n / 2 + par_thickness DEFAULTS, b / 2)])"
proof -
  have len: "length (corners a c d n) = 4"
    by (simp add: corners_def Let_def)
  have nth: "i < 4 \<Longrightarrow> make_assembly a c d n b ! Suc (Suc i) =
      (bone_raw b, bone_translation (par_thickness DEFAULTS) (b / 2) (corners a c d n ! i),
       (0, 0, 0))"
    using len by (simp add: make_assembly_def Let_def nth_append)
  have p1: "i < 4 \<longrightarrow>
      (let cnr = corners a c d n ! i;
           t = fst (snd (make_assembly a c d n b ! (2 + i)))
       in (fst cnr > 0 \<longrightarrow> fst t = fst cnr - BONE_X_INSET)
          \<and> (fst cnr < 0 \<longrightarrow> fst t = fst cnr + BONE_X_INSET)
          \<and> (snd cnr < 0 \<longrightarrow> fst (snd t) = snd cnr + par_thickness DEFAULTS)
          \<and> (snd cnr \<ge> 0 \<longrightarrow> fst (snd t) = snd cnr)
          \<and> snd (snd t) = b / 2)"
    by (auto simp: nth bone_translation_def Let_def)
  have p2: "corners a c d n =
          [(outer_x a / 2, outer_y c d n / 2), (- outer_x a / 2, outer_y c d n / 2),
           (- outer_x a / 2, - outer_y c d n / 2), (outer_x a / 2, - outer_y c d n / 2)]
        \<and> map (fst \<circ> snd) (drop 2 (make_assembly a c d n b)) =
          [(outer_x a / 2 - BONE_X_INSET, outer_y c d n / 2, b / 2),
           (- outer_x a / 2 + BONE_X_INSET, outer_y c d n / 2, b / 2),
           (- outer_x a / 2 + BONE_X_INSET, - outer_y c d n / 2 + par_thickness DEFAULTS, b / 2),
           (outer_x a / 2 - BONE_X_INSET, - outer_y c d n / 2 + par_thickness DEFAULTS, b / 2)]"
    if v: "0 < a" "0 < c" "0 < d" "1 \<le> n"
  proof -
    have iy: "0 < inner_y c d n" using v by (simp add: inner_y_pos)
    have ox: "0 < outer_x a" using v by (simp add: outer_x_def inner_x_def frame_consts)
    have oy: "0 < outer_y c d n" using iy by (simp add: outer_y_def frame_consts)
    show ?thesis
      using ox oy
      by (simp add: make_assembly_def corners_valid [OF v] bone_translation_def Let_def)
  qed
  show ?thesis using p1 p2 by blast
qed

theorem bone_positions_witness:
  "(2::nat) < 4 \<and> (0::real) < 90 \<and> (0::real) < 1.6 \<and> (0::real) < 10 \<and> (1::int) \<le> 10
   \<and> corners 90 1.6 10 10 = [(54.5, 75), (- 54.5, 75), (- 54.5, - 75), (54.5, - 75)]
   \<and> map (fst \<circ> snd) (drop 2 (make_assembly 90 1.6 10 10 120)) =
       [(43.5, 75, 60), (- 43.5, 75, 60), (- 43.5, - 70, 60), (43.5, - 70, 60)]"
  using bone_positions [of 2 90 "1.6" 10 10 120]
  by (simp add: outer_x_def outer_y_def inner_x_def inner_y_def active_height_def frame_consts
      BONE_X_INSET_def DEFAULTS_def)

section \<open>Frame symmetry\<close>

text \<open>
  C8. The frame returned by \<open>make_frame\<close> is invariant under the mirrors \<open>x \<mapsto> -x\<close> and
  \<open>y \<mapsto> -y\<close>: the point set of the solid is mirror-symmetric about both axes, and so is
  each of its pieces (the slotted rails, the four connector cutouts, the eight wedges);
  the cosmetic chamfers are applied at selectors and sizes that the two mirrors map onto
  themselves. The point set is that of the solid the chamfers are applied to.
\<close>

theorem frame_mirror_symmetric:
  "inside (make_frame a c d n) (- x, y, z) = inside (make_frame a c d n) (x, y, z)
   \<and> inside (make_frame a c d n) (x, - y, z) = inside (make_frame a c d n) (x, y, z)
   \<and> inside (slotted_rails a c d n) (- x, y, z) = inside (slotted_rails a c d n) (x, y, z)
   \<and> inside (slotted_rails a c d n) (x, - y, z) = inside (slotted_rails a c d n) (x, y, z)
   \<and> inside (connector_cutter a c d n) (- x, y, z) = inside (connector_cutter a c d n) (x, y, z)
   \<and> inside (connector_cutter a c d n) (x, - y, z) = inside (connector_cutter a c d n) (x, y, z)
   \<and> (\<exists>ws. wedges a c d n = Some ws
          \<and> inside ws (- x, y, z) = inside ws (x, y, z)
          \<and> inside ws (x, - y, z) = inside ws (x, y, z))
   \<and> length (chamfers (make_frame a c d n)) = 10
   \<and> (\<lambda>ch. (mirror_sel_x (fst ch), snd ch)) ` set (chamfers (make_frame a c d n))
       = set (chamfers (make_frame a c d n))
   \<and> (\<lambda>ch. (mirror_sel_y (fst ch), snd ch)) ` set (chamfers (make_frame a c d n))
       = set (chamfers (make_frame a c d n))"
proof -
  obtain ws where w: "wedges a c d n = Some ws"
     and mx: "\<And>x y z. inside ws (- x, y, z) = inside ws (x, y, z)"
     and my: "\<And>x y z. inside ws (x, - y, z) = inside ws (x, y, z)"
    using wedges_sym by blast
  have wd: "\<exists>ws. wedges a c d n = Some ws
          \<and> inside ws (- x, y, z) = inside ws (x, y, z)
          \<and> inside ws (x, - y, z) = inside ws (x, y, z)"
    using w mx my by blast
  obtain xl yt where ch: "chamfers (make_frame a c d n) =
     [(NearestParallelY (xl - CONNECTOR_W / 2, yt, PLATE_T / 2), CONNECTOR_TOP_CH),
      (NearestParallelY (xl + CONNECTOR_W / 2, yt, PLATE_T / 2), CONNECTOR_TOP_CH),
      (NearestParallelY (- xl - CONNECTOR_W / 2, yt, PLATE_T / 2), CONNECTOR_TOP_CH),
      (NearestParallelY (- xl + CONNECTOR_W / 2, yt, PLATE_T / 2), CONNECTOR_TOP_CH),
      (NearestParallelY (xl - CONNECTOR_W / 2, - yt, PLATE_T / 2), CONNECTOR_TOP_CH),
      (NearestParallelY (xl + CONNECTOR_W / 2, - yt, PLATE_T / 2), CONNECTOR_TOP_CH),
      (NearestParallelY (- xl - CONNECTOR_W / 2, - yt, PLATE_T / 2), CONNECTOR_TOP_CH),
      (NearestParallelY (- xl + CONNECTOR_W / 2, - yt, PLATE_T / 2), CONNECTOR_TOP_CH),
      (FaceEdgesParallelZ MaxX, OUTER_CORNER_CH),
      (FaceEdgesParallelZ MinX, OUTER_CORNER_CH)]"
    using chamfers_make_frame by blast
  have n1: "- (xl - CONNECTOR_W / 2) = - xl + CONNECTOR_W / 2"
    and n2: "- (xl + CONNECTOR_W / 2) = - xl - CONNECTOR_W / 2"
    and n3: "- (- xl - CONNECTOR_W / 2) = xl + CONNECTOR_W / 2"
    and n4: "- (- xl + CONNECTOR_W / 2) = xl - CONNECTOR_W / 2"
    by simp_all
  have len: "length (chamfers (make_frame a c d n)) = 10"
    unfolding ch by simp
  have sx: "(\<lambda>ch. (mirror_sel_x (fst ch), snd ch)) ` set (chamfers (make_frame a c d n))
       = set (chamfers (make_frame a c d n))"
    unfolding ch
    by (simp only: list.set image_insert image_empty fst_conv snd_conv mirror_sel_x_def
        edge_sel.case prod.case face_sel.case n1 n2 n3 n4) blast
  have sy: "(\<lambda>ch. (mirror_sel_y (fst ch), snd ch)) ` set (chamfers (make_frame a c d n))
       = set (chamfers (make_frame a c d n))"
    unfolding ch
    by (simp only: list.set image_insert image_empty fst_conv snd_conv mirror_sel_y_def
        edge_sel.case prod.case minus_minus) blast
  show ?thesis
    by (intro conjI wd len sx sy slotted_rails_mirror_x slotted_rails_mirror_y
        connector_cutter_mirror_x connector_cutter_mirror_y)
       (simp_all add: inside_make_frame frame_body_mirror)
qed

section \<open>Exporter\<close>

text \<open>
  C9. \<open>export_shape\<close> raises \<open>ValueError\<close> if and only if the lowercased format string
  is none of \<open>stl\<close>, \<open>step\<close>, \<open>stp\<close>. For a supported format the shape is exported to
  the output path and the resolved absolute path is returned; on the error path no file
  is written.
\<close>

theorem export_format_error:
  "(isl (snd (export_shape shape out_path fmt fs))
      \<longleftrightarrow> lower fmt \<notin> {''stl'', ''step'', ''stp''})
   \<and> (lower fmt \<notin> {''stl'', ''step'', ''stp''} \<longrightarrow>
        snd (export_shape shape out_path fmt fs)
          = Inl (ValueError (''Unsupported format: '' @ lower fmt))
        \<and> files (fst (export_shape shape out_path fmt fs)) = files fs)
   \<and> (lower fmt \<in> {''stl'', ''step'', ''stp''} \<longrightarrow>
        snd (export_shape shape out_path fmt fs)
          = Inr (str_abs (resolve (cwd fs) (Path out_path)))
        \<and> files (fst (export_shape shape out_path fmt fs)) (resolve (cwd fs) (Path out_path))
          = Some (if lower fmt = ''stl'' then STL else STEP, shape))"
proof (cases "lower fmt = ''stl''")
  case True
  then show ?thesis
    by (simp add: export_shape_def Let_def export_def cwd_mkdir files_mkdir)
next
  case False
  note ns = this
  show ?thesis
  proof (cases "lower fmt = ''step'' \<or> lower fmt = ''stp''")
    case True
    with ns show ?thesis
      by (auto simp add: export_shape_def Let_def export_def cwd_mkdir files_mkdir)
  next
    case False
    with ns show ?thesis
      by (simp add: export_shape_def Let_def files_mkdir)
  qed
qed

theorem export_format_error_witness:
  "lower ''OBJ'' \<notin> {''stl'', ''step'', ''stp''}
   \<and> snd (export_shape (Box (0, 0) (1, 1, 1)) ''build/out/model.obj'' ''OBJ'' fs0)
       = Inl (ValueError ''Unsupported format: obj'')
   \<and> files (fst (export_shape (Box (0, 0) (1, 1, 1)) ''build/out/model.obj'' ''OBJ'' fs0)) = Map.empty
   \<and> lower ''StP'' \<in> {''stl'', ''step'', ''stp''}
   \<and> snd (export_shape (Box (0, 0) (1, 1, 1)) ''/tmp/model.step'' ''StP'' fs0) = Inr ''/tmp/model.step''
   \<and> files (fst (export_shape (Box (0, 0) (1, 1, 1)) ''/tmp/model.step'' ''StP'' fs0)) [''tmp'', ''model.step'']
       = Some (STEP, Box (0, 0) (1, 1, 1))"
  using export_format_error [of "Box (0, 0) (1, 1, 1)" "''build/out/model.obj''" "''OBJ''" fs0]
        export_format_error [of "Box (0, 0) (1, 1, 1)" "''/tmp/model.step''" "''StP''" fs0]
  by (simp add: lower_examples fs0_def Path_def resolve_def str_abs_def)

text \<open>
  C10. \<open>export_shape\<close> creates the missing parent directories of the output path before
  it looks at the format: with an unsupported format the returned file system is the one
  after \<open>mkdir\<close>, so the error branch changes the state (in \<open>fs0\<close> the directories
  \<open>/home/build\<close> and \<open>/home/build/out\<close> appear although \<open>ValueError\<close> is raised). Format
  strings that agree after lowercasing give the same run, and \<open>stp\<close> is accepted as STEP
  although the command line offers only \<open>stl\<close> and \<open>step\<close>.
\<close>

theorem export_mkdir_before_validation:
  "(lower fmt \<notin> {''stl'', ''step'', ''stp''} \<longrightarrow>
      isl (snd (export_shape shape out_path fmt fs))
      \<and> fst (export_shape shape out_path fmt fs) = mkdir_parents (parent (Path out_path)) fs
      \<and> set (ancestors (resolve (cwd fs) (parent (Path out_path))))
          \<subseteq> dirs (fst (export_shape shape out_path fmt fs)))
   \<and> export_shape shape ''build/out/model.obj'' ''OBJ'' fs0 =
       (fs0 \<lparr> dirs := {[], [''home''], [''home'', ''build''], [''home'', ''build'', ''out'']} \<rparr>,
        Inl (ValueError ''Unsupported format: obj''))
   \<and> dirs (fst (export_shape shape ''build/out/model.obj'' ''OBJ'' fs0)) \<noteq> dirs fs0
   \<and> (lower fmt = lower fmt' \<longrightarrow>
        export_shape shape out_path fmt fs = export_shape shape out_path fmt' fs)
   \<and> export_shape shape out_path ''stp'' fs = export_shape shape out_path ''step'' fs
   \<and> \<not> isl (snd (export_shape shape out_path ''stp'' fs))
   \<and> \<not> isl (snd (export_shape shape out_path ''STL'' fs))
   \<and> ''stp'' \<notin> set fmt_choices \<and> ''STL'' \<notin> set fmt_choices"
proof -
  have e1: "export_shape shape ''build/out/model.obj'' ''OBJ'' fs0 =
       (fs0 \<lparr> dirs := {[], [''home''], [''home'', ''build''], [''home'', ''build'', ''out'']} \<rparr>,
        Inl (ValueError ''Unsupported format: obj''))"
    by (auto simp add: export_shape_def Let_def lower_examples Path_def parent_def
        mkdir_parents_def resolve_def fs0_def)
  have e2: "dirs (fst (export_shape shape ''build/out/model.obj'' ''OBJ'' fs0)) \<noteq> dirs fs0"
    unfolding e1 by (auto simp: fs0_def)
  have g: "lower fmt \<notin> {''stl'', ''step'', ''stp''} \<longrightarrow>
      isl (snd (export_shape shape out_path fmt fs))
      \<and> fst (export_shape shape out_path fmt fs) = mkdir_parents (parent (Path out_path)) fs
      \<and> set (ancestors (resolve (cwd fs) (parent (Path out_path))))
          \<subseteq> dirs (fst (export_shape shape out_path fmt fs))"
    using ancestors_resolved_subset
      [of "(if fst (parent (Path out_path)) then [] else cwd fs) @ snd (parent (Path out_path))"]
    by (auto simp add: export_shape_def Let_def mkdir_parents_def resolve_def)
  have ci: "lower fmt = lower fmt' \<longrightarrow>
        export_shape shape out_path fmt fs = export_shape shape out_path fmt' fs"
    by (simp add: export_shape_def)
  have st1: "export_shape shape out_path ''stp'' fs = export_shape shape out_path ''step'' fs"
    by (simp add: export_shape_def Let_def lower_examples)
  have st2: "\<not> isl (snd (export_shape shape out_path ''stp'' fs))"
    by (simp add: export_shape_def Let_def lower_examples)
  have st3: "\<not> isl (snd (export_shape shape out_path ''STL'' fs))"
    by (simp add: export_shape_def Let_def lower_examples)
  have fc1: "''stp'' \<notin> set fmt_choices" and fc2: "''STL'' \<notin> set fmt_choices"
    by (simp_all add: fmt_choices_def)
  show ?thesis
    by (intro conjI g e1 e2 ci st1 st2 st3 fc1 fc2)
qed

theorem export_mkdir_before_validation_witness:
  "lower ''OBJ'' \<notin> {''stl'', ''step'', ''stp''}
   \<and> isl (snd (export_shape (Box (0, 0) (1, 1, 1)) ''build/out/model.obj'' ''OBJ'' fs0))
   \<and> [''home'', ''build'', ''out'']
        \<in> dirs (fst (export_shape (Box (0, 0) (1, 1, 1)) ''build/out/model.obj'' ''OBJ'' fs0))
   \<and> [''home'', ''build'', ''out''] \<notin> dirs (fs0 :: solid filesystem)
   \<and> lower ''StP'' = lower ''stp''
   \<and> export_shape (Box (0, 0) (1, 1, 1)) ''a.step'' ''StP'' fs0 = export_shape (Box (0, 0) (1, 1, 1)) ''a.step'' ''stp'' fs0"
  using export_mkdir_before_validation [of "''OBJ''" "Box (0, 0) (1, 1, 1)" "''build/out/model.obj''" fs0 "''OBJ''"]
        export_mkdir_before_validation [of "''StP''" "Box (0, 0) (1, 1, 1)" "''a.step''" fs0 "''stp''"]
  by (simp add: lower_examples fs0_def)

end
